theory Spec2Isabelle
  imports Main
begin

section \<open>The Flower ClientApp process (flwr/client/clientapp/app.py)\<close>

text \<open>
  The module runs one isolated \<open>ClientApp\<close>: it opens a gRPC channel to the SuperNode,
  obtains a token, pulls one message with its context and run, loads and calls the
  \<open>ClientApp\<close> inside a \<open>try\<close>/\<open>except Exception\<close> block, pushes the reply and closes the
  channel. Everything the function does is a call to a collaborator, so the model makes
  the collaborators explicit (an environment of scripted answers) and records every
  observable call of a run in a trace of events.
\<close>

subsection \<open>Exceptions\<close>

text \<open>
  The classes the source tests with \<open>except\<close> and \<open>isinstance\<close>, and a constructor for
  every other class. An exception object carries the text printed for its class by
  \<open>str(type(ex))\<close> (between \<open><class '\<close> and \<open>'>\<close>), its text, the classes it is an
  instance of, and what its own \<open>__str__\<close> does when it is called: \<open>None\<close> when it returns
  the text, \<open>Some ex'\<close> when it raises \<open>ex'\<close> instead.
\<close>

datatype py_class =
    BaseException
  | Exception
  | KeyboardInterrupt
  | SystemExit
  | RpcError
  | LoadClientAppError
  | OtherClass string

datatype exn =
  Exn (exn_class_name: string) (exn_text: string) (exn_mro: "py_class list")
    (exn_str_raises: "exn option")

text \<open>A call either raises (\<open>Inl\<close>) or returns (\<open>Inr\<close>).\<close>

type_synonym 'a result = "exn + 'a"

definition isinstance :: "exn \<Rightarrow> py_class \<Rightarrow> bool" where
  "isinstance ex c = (c \<in> set (exn_mro ex))"

definition squote :: string where
  "squote = [CHR 0x27]"

text \<open>\<open>str(type(ex))\<close>, for example \<open><class 'ZeroDivisionError'>\<close>.\<close>

definition str_type :: "exn \<Rightarrow> string" where
  "str_type ex = ''<class '' @ squote @ exn_class_name ex @ squote @ ''>''"

text \<open>The text of an exception: what \<open>str(ex)\<close> is when \<open>__str__\<close> returns.\<close>

definition str_exn :: "exn \<Rightarrow> string" where
  "str_exn ex = exn_text ex"

text \<open>
  \<open>str(ex)\<close> on an exception that comes out of the code of the application (the loader, the
  \<open>ClientApp\<close>): it runs the \<open>__str__\<close> of the exception, which returns the text or raises.
\<close>

definition call_str :: "exn \<Rightarrow> string result" where
  "call_str ex = (case exn_str_raises ex of Some ex' \<Rightarrow> Inl ex' | None \<Rightarrow> Inr (str_exn ex))"

subsection \<open>Data\<close>

text \<open>
  \<open>Message\<close> and \<open>Context\<close> are opaque to this module (type variables \<open>'m\<close> and \<open>'c\<close>).
  Of \<open>Run\<close> the module reads \<open>fab_id\<close> and \<open>fab_version\<close>. Of \<open>ErrorCode\<close> it names two
  members. \<open>Error(code=..., reason=...)\<close> is a record.
\<close>

record run =
  fab_id :: string
  fab_version :: string

datatype error_code = LOAD_CLIENT_APP_EXCEPTION | CLIENT_APP_RAISED_EXCEPTION

record error =
  code :: error_code
  reason :: string

datatype level = DEBUG | INFO | ERROR

text \<open>
  The observable actions of a run, in the order they happen. The payload of the two
  data-carrying calls is given as the \<open>Message\<close> and \<open>Context\<close> objects handed to
  \<open>pull_message\<close> and \<open>push_message\<close>; the conversions to and from the wire format
  (\<open>flwr.common.serde\<close>) are taken as lossless and are not part of the trace.
\<close>

datatype ('m, 'c) event =
    CreateChannel string
  | Subscribe
  | GetToken
  | PullClientAppInputs int
  | PushClientAppOutputs int 'm 'c
  | Log level string
  | ChannelClose

text \<open>
  A \<open>ClientApp\<close> is called with the message and the context, both mutable objects. Its
  outcome is what it returns or raises, together with the message and the context as the
  call left them.
\<close>

type_synonym ('m, 'c) client_app = "'m \<Rightarrow> 'c \<Rightarrow> 'm result \<times> 'm \<times> 'c"

text \<open>
  The collaborators of one run: the answer of the SuperNode to the \<open>i\<close>-th \<open>GetToken\<close>
  call, its answer to \<open>PullClientAppInputs\<close> and \<open>PushClientAppOutputs\<close>, the function
  returned by \<open>get_load_client_app_fn\<close>, and \<open>Message.create_error_reply\<close>.
\<close>

record ('m, 'c) env =
  GetToken_rpc :: "nat \<Rightarrow> int option result"
  PullClientAppInputs_rpc :: "int \<Rightarrow> ('m \<times> 'c \<times> run) result"
  load_client_app_fn :: "string \<Rightarrow> string \<Rightarrow> ('m, 'c) client_app result"
  create_error_reply :: "'m \<Rightarrow> error \<Rightarrow> 'm"
  PushClientAppOutputs_rpc :: "int \<Rightarrow> 'm \<Rightarrow> 'c \<Rightarrow> unit result"

subsection \<open>The three remote calls\<close>

text \<open>\<open>get_token\<close>: one debug line, one \<open>GetToken\<close> request, \<open>return res.token\<close>.\<close>

definition get_token ::
  "('m, 'c) env \<Rightarrow> nat \<Rightarrow> ('m, 'c) event list \<times> int option result" where
  "get_token e i =
     ([Log DEBUG ''Flower ClientApp process requests token'', GetToken], GetToken_rpc e i)"

definition pull_message ::
  "('m, 'c) env \<Rightarrow> int \<Rightarrow> ('m, 'c) event list \<times> ('m \<times> 'c \<times> run) result" where
  "pull_message e token = ([PullClientAppInputs token], PullClientAppInputs_rpc e token)"

definition push_message ::
  "('m, 'c) env \<Rightarrow> int \<Rightarrow> 'm \<Rightarrow> 'c \<Rightarrow> ('m, 'c) event list \<times> unit result" where
  "push_message e token message context =
     ([PushClientAppOutputs token message context],
      PushClientAppOutputs_rpc e token message context)"

subsection \<open>The token loop\<close>

text \<open>
  \<open>while token is None: token = get_token(stub)\<close>. The loop has no bound: when the
  SuperNode answers \<open>None\<close> for ever the loop does not return, which is the value \<open>None\<close>
  of the model. The argument \<open>i\<close> counts the \<open>GetToken\<close> calls made so far.
\<close>

partial_function (option) token_loop ::
  "('m, 'c) env \<Rightarrow> nat \<Rightarrow> int option \<Rightarrow> (('m, 'c) event list \<times> int result) option" where
  "token_loop e i token =
     (case token of
        Some t \<Rightarrow> Some ([], Inr t)
      | None \<Rightarrow>
          (case get_token e i of
             (evs, Inl ex) \<Rightarrow> Some (evs, Inl ex)
           | (evs, Inr token') \<Rightarrow>
               Option.bind (token_loop e (Suc i) token')
                 (\<lambda>(evs', r). Some (evs @ evs', r))))"

subsection \<open>The fault boundary\<close>

text \<open>
  The \<open>except Exception as ex\<close> clause: it is entered with the exception and the message
  and context as they are at that point. An exception that is not an instance of
  \<open>Exception\<close> is not caught and goes on to the enclosing \<open>try\<close>. The clause first
  computes the reason with \<open>str(ex)\<close>, for every caught exception and before it looks at
  its class; when that call raises, the new exception leaves the clause, before anything
  is logged and before any reply is built, and goes on to the enclosing \<open>try\<close>.
\<close>

definition load_reason :: string where
  "load_reason = ''An exception was raised when attempting to load `ClientApp`''"

definition except_clause ::
  "('m, 'c) env \<Rightarrow> exn \<Rightarrow> 'm \<Rightarrow> 'c \<Rightarrow> ('m, 'c) event list \<times> ('m \<times> 'c) result" where
  "except_clause e ex message context =
     (if isinstance ex Exception then
        (case call_str ex of
           Inl ex' \<Rightarrow> ([], Inl ex')
         | Inr str_ex \<Rightarrow>
             (let e_code = CLIENT_APP_RAISED_EXCEPTION;
                  reason = str_type ex @ '':<'' @ squote @ str_ex @ squote @ ''>'';
                  exc_entity = ''ClientApp'';
                  (reason, e_code) =
                    (if isinstance ex LoadClientAppError
                     then (load_reason, LOAD_CLIENT_APP_EXCEPTION)
                     else (reason, e_code))
              in ([Log ERROR (exc_entity @ '' raised an exception'')],
                  Inr (create_error_reply e message \<lparr>code = e_code, reason = reason\<rparr>,
                       context))))
      else ([], Inl ex))"

text \<open>
  The statements of the inner \<open>try\<close>: load the \<open>ClientApp\<close> for the run, call it on
  the message and the context. The loader is called with two strings only, so when it
  raises, message and context are as they were pulled.
\<close>

definition inner_try ::
  "('m, 'c) env \<Rightarrow> 'm \<Rightarrow> 'c \<Rightarrow> run \<Rightarrow> 'm result \<times> 'm \<times> 'c" where
  "inner_try e message context rn =
     (case load_client_app_fn e (fab_id rn) (fab_version rn) of
        Inl ex \<Rightarrow> (Inl ex, message, context)
      | Inr client_app \<Rightarrow> client_app message context)"

text \<open>
  The inner \<open>try\<close> with its \<open>except\<close> clause. The result is the reply message and the
  context that go to \<open>push_message\<close>.
\<close>

definition fault_boundary ::
  "('m, 'c) env \<Rightarrow> 'm \<Rightarrow> 'c \<Rightarrow> run \<Rightarrow> ('m, 'c) event list \<times> ('m \<times> 'c) result" where
  "fault_boundary e message context rn =
     (case inner_try e message context rn of
        (Inl ex, message', context') \<Rightarrow> except_clause e ex message' context'
      | (Inr reply_message, message', context') \<Rightarrow> ([], Inr (reply_message, context')))"

subsection \<open>The driver\<close>

text \<open>
  What the model takes from the collaborators: \<open>create_channel\<close>, \<open>channel.subscribe\<close>,
  \<open>log\<close>, \<open>get_load_client_app_fn\<close> (called with \<open>multi_app=True\<close>, it only builds the
  loader), \<open>create_error_reply\<close> and \<open>channel.close\<close> return without raising. An exception
  reaches the run only as the outcome of one of the calls of the environment, or of the
  \<open>__str__\<close> of an exception that the loader or the \<open>ClientApp\<close> raised; a
  \<open>KeyboardInterrupt\<close> delivered between two statements is not modelled.
\<close>

text \<open>
  The body of the outer \<open>try\<close>: token loop, \<open>pull_message\<close>, the fault boundary,
  \<open>push_message\<close>. An exception of any step ends the body there.
\<close>

definition try_body ::
  "('m, 'c) env \<Rightarrow> int option \<Rightarrow> (('m, 'c) event list \<times> unit result) option" where
  "try_body e token =
     (case token_loop e 0 token of
        None \<Rightarrow> None
      | Some (evs1, Inl ex) \<Rightarrow> Some (evs1, Inl ex)
      | Some (evs1, Inr tok) \<Rightarrow>
          (case pull_message e tok of
             (evs2, Inl ex) \<Rightarrow> Some (evs1 @ evs2, Inl ex)
           | (evs2, Inr (message, context, rn)) \<Rightarrow>
               (case fault_boundary e message context rn of
                  (evs3, Inl ex) \<Rightarrow> Some (evs1 @ evs2 @ evs3, Inl ex)
                | (evs3, Inr (reply_message, context')) \<Rightarrow>
                    (case push_message e tok reply_message context' of
                       (evs4, Inl ex) \<Rightarrow> Some (evs1 @ evs2 @ evs3 @ evs4, Inl ex)
                     | (evs4, Inr _) \<Rightarrow> Some (evs1 @ evs2 @ evs3 @ evs4, Inr ())))))"

text \<open>
  The two \<open>except\<close> clauses of the outer \<open>try\<close>, tried in the order of the source. The
  result is what the clause logs and whether the exception is still raised afterwards.
  The text of a \<open>grpc.RpcError\<close> is printed by the gRPC library, not by the application,
  and is taken to return, like the other calls into libraries.
\<close>

definition outer_except :: "exn \<Rightarrow> ('m, 'c) event list \<times> unit result" where
  "outer_except ex =
     (if isinstance ex KeyboardInterrupt then ([Log INFO ''Closing connection''], Inr ())
      else if isinstance ex RpcError then
        ([Log ERROR (''GRPC error occurred: '' @ str_exn ex)], Inr ())
      else ([], Inl ex))"

text \<open>
  \<open>run_clientapp\<close>: create the channel and subscribe, run the body, handle its
  exception, and close the channel in the \<open>finally\<close> clause. \<open>None\<close> is a run that never
  returns; \<open>Inl ex\<close> is a run that ends by raising \<open>ex\<close> to its caller.
\<close>

definition run_clientapp ::
  "('m, 'c) env \<Rightarrow> string \<Rightarrow> int option \<Rightarrow> (('m, 'c) event list \<times> unit result) option" where
  "run_clientapp e supernode token =
     (case try_body e token of
        None \<Rightarrow> None
      | Some (evs, Inr _) \<Rightarrow>
          Some ([CreateChannel supernode, Subscribe] @ evs @ [ChannelClose], Inr ())
      | Some (evs, Inl ex) \<Rightarrow>
          (case outer_except ex of
             (evs', r) \<Rightarrow>
               Some ([CreateChannel supernode, Subscribe] @ evs @ evs' @ [ChannelClose], r)))"

subsection \<open>Reading a trace\<close>

fun pushes :: "('m, 'c) event list \<Rightarrow> (int \<times> 'm \<times> 'c) list" where
  "pushes [] = []"
| "pushes (PushClientAppOutputs t m c # es) = (t, m, c) # pushes es"
| "pushes (_ # es) = pushes es"

fun pulls :: "('m, 'c) event list \<Rightarrow> int list" where
  "pulls [] = []"
| "pulls (PullClientAppInputs t # es) = t # pulls es"
| "pulls (_ # es) = pulls es"

text \<open>What \<open>n\<close> calls of \<open>get_token\<close> leave in the trace.\<close>

definition poll_events :: "nat \<Rightarrow> ('m, 'c) event list" where
  "poll_events n =
     concat (replicate n [Log DEBUG ''Flower ClientApp process requests token'', GetToken])"

text \<open>
  What a returning token loop says about the answers of the SuperNode: a token given at
  the start is returned with no call; otherwise \<open>n\<close> answers \<open>None\<close> were followed by a
  token or by an exception.
\<close>

definition loop_shape ::
  "('m, 'c) env \<Rightarrow> nat \<Rightarrow> int option \<Rightarrow> ('m, 'c) event list \<times> int result \<Rightarrow> bool" where
  "loop_shape e i token y =
     (case token of
        Some t \<Rightarrow> y = ([], Inr t)
      | None \<Rightarrow>
          (\<exists>n. fst y = poll_events (Suc n) \<and> (\<forall>j<n. GetToken_rpc e (i + j) = Inr None) \<and>
             (case snd y of
                Inr t \<Rightarrow> GetToken_rpc e (i + n) = Inr (Some t)
              | Inl ex \<Rightarrow> GetToken_rpc e (i + n) = Inl ex)))"

subsection \<open>Scenarios\<close>

text \<open>
  Concrete collaborators on which the theorems below are run: messages are a routing tag
  with an optional error, contexts are strings, and \<open>create_error_reply\<close> keeps the tag
  of the message and attaches the error.
\<close>

definition reply_with_error :: "string \<times> error option \<Rightarrow> error \<Rightarrow> string \<times> error option" where
  "reply_with_error m err = (fst m, Some err)"

definition supernode_env ::
  "(nat \<Rightarrow> int option result) \<Rightarrow>
   (string \<Rightarrow> string \<Rightarrow> (string \<times> error option, string) client_app result) \<Rightarrow>
   (int \<Rightarrow> unit result) \<Rightarrow> (string \<times> error option, string) env" where
  "supernode_env answers loader ack =
     \<lparr>GetToken_rpc = answers,
      PullClientAppInputs_rpc =
        (\<lambda>t. Inr ((''M'', None), ''C'', \<lparr>fab_id = ''flwr/app'', fab_version = ''1.0''\<rparr>)),
      load_client_app_fn = loader,
      create_error_reply = reply_with_error,
      PushClientAppOutputs_rpc = (\<lambda>t m c. ack t)\<rparr>"

definition app_returns :: "(string \<times> error option, string) client_app" where
  "app_returns message context = (Inr (''R'', None), message, context @ ''+'')"

definition app_raises :: "exn \<Rightarrow> (string \<times> error option, string) client_app" where
  "app_raises ex message context = (Inl ex, message, context @ ''+'')"

definition zero_division :: exn where
  "zero_division =
     Exn ''ZeroDivisionError'' ''division by zero''
       [OtherClass ''ZeroDivisionError'', OtherClass ''ArithmeticError'', Exception,
        BaseException]
       None"

definition scenario_A :: "(string \<times> error option, string) env" where
  "scenario_A = supernode_env (\<lambda>i. Inr None) (\<lambda>fid fv. Inr app_returns) (\<lambda>t. Inr ())"

definition scenario_D :: "(string \<times> error option, string) env" where
  "scenario_D =
     supernode_env (\<lambda>i. Inr None) (\<lambda>fid fv. Inr (app_raises zero_division)) (\<lambda>t. Inr ())"

definition scenario_B :: "(string \<times> error option, string) env" where
  "scenario_B =
     supernode_env (\<lambda>i. if i < 2 then Inr None else Inr (Some 42))
       (\<lambda>fid fv. Inr app_returns) (\<lambda>t. Inr ())"

definition rpc_error :: exn where
  "rpc_error =
     Exn ''grpc._channel._InactiveRpcError'' ''failed to connect to all addresses''
       [OtherClass ''grpc._channel._InactiveRpcError'', RpcError, Exception, BaseException]
       None"

definition scenario_E :: "(string \<times> error option, string) env" where
  "scenario_E = supernode_env (\<lambda>i. Inr None) (\<lambda>fid fv. Inr app_returns) (\<lambda>t. Inl rpc_error)"

definition scenario_pull_fails :: "(string \<times> error option, string) env" where
  "scenario_pull_fails = scenario_A\<lparr>PullClientAppInputs_rpc := (\<lambda>t. Inl rpc_error)\<rparr>"

definition scenario_token_fails :: "(string \<times> error option, string) env" where
  "scenario_token_fails =
     supernode_env (\<lambda>i. if i < 1 then Inr None else Inl rpc_error)
       (\<lambda>fid fv. Inr app_returns) (\<lambda>t. Inr ())"

definition file_not_found :: exn where
  "file_not_found =
     Exn ''FileNotFoundError'' ''app.toml missing''
       [OtherClass ''FileNotFoundError'', OtherClass ''OSError'', Exception, BaseException]
       None"

definition load_error :: exn where
  "load_error =
     Exn ''flwr.client.client_app.LoadClientAppError'' ''Failed to load ClientApp''
       [LoadClientAppError, Exception, BaseException]
       None"


definition scenario_loader_raises :: "exn \<Rightarrow> (string \<times> error option, string) env" where
  "scenario_loader_raises ex = supernode_env (\<lambda>i. Inr None) (\<lambda>fid fv. Inl ex) (\<lambda>t. Inr ())"

definition scenario_app_raises :: "exn \<Rightarrow> (string \<times> error option, string) env" where
  "scenario_app_raises ex =
     supernode_env (\<lambda>i. Inr None) (\<lambda>fid fv. Inr (app_raises ex)) (\<lambda>t. Inr ())"

definition the_run :: run where
  "the_run = \<lparr>fab_id = ''flwr/app'', fab_version = ''1.0''\<rparr>"

definition str_type_error :: exn where
  "str_type_error =
     Exn ''TypeError'' ''__str__ returned non-string (type NoneType)''
       [OtherClass ''TypeError'', Exception, BaseException]
       None"

definition broken_str :: exn where
  "broken_str =
     Exn ''BrokenError'' []
       [OtherClass ''BrokenError'', Exception, BaseException]
       (Some str_type_error)"

section \<open>Properties\<close>

subsection \<open>Traces and the token loop\<close>

lemma pushes_append: "pushes (xs @ ys) = pushes xs @ pushes ys"
  by (induction xs rule: pushes.induct) simp_all

lemma pulls_append: "pulls (xs @ ys) = pulls xs @ pulls ys"
  by (induction xs rule: pulls.induct) simp_all

lemma poll_events_0: "poll_events 0 = []"
  by (simp add: poll_events_def)

lemma poll_events_Suc:
  "poll_events (Suc n) = Log DEBUG ''Flower ClientApp process requests token'' # GetToken # poll_events n"
  by (simp add: poll_events_def)

lemma pushes_poll_events: "pushes (poll_events n) = []"
  by (induction n) (simp_all add: poll_events_0 poll_events_Suc)

lemma pulls_poll_events: "pulls (poll_events n) = []"
  by (induction n) (simp_all add: poll_events_0 poll_events_Suc)

lemma set_poll_events:
  "set (poll_events n) \<subseteq> {Log DEBUG ''Flower ClientApp process requests token'', GetToken}"
  by (induction n) (auto simp add: poll_events_0 poll_events_Suc)

lemma count_GetToken_poll_events: "count_list (poll_events n) GetToken = n"
  by (induction n) (simp_all add: poll_events_0 poll_events_Suc)

lemma poll_events_add: "poll_events (n + m) = poll_events n @ poll_events m"
  by (simp add: poll_events_def replicate_add)

lemma poll_events_snoc: "poll_events n @ poll_events (Suc 0) = poll_events (Suc n)"
  by (simp only: poll_events_add [of n "Suc 0", symmetric] add_Suc_right add_0_right)

lemma token_loop_Some: "token_loop e i (Some t) = Some ([], Inr t)"
  by (subst token_loop.simps) simp

lemma token_loop_None:
  "token_loop e i None =
     (case GetToken_rpc e i of
        Inl ex \<Rightarrow> Some (poll_events 1, Inl ex)
      | Inr token' \<Rightarrow>
          Option.bind (token_loop e (Suc i) token') (\<lambda>(evs', r). Some (poll_events 1 @ evs', r)))"
  by (subst token_loop.simps) (simp add: get_token_def poll_events_def split: sum.splits)

text \<open>The loop after \<open>n\<close> answers \<open>None\<close>.\<close>

lemma token_loop_skip:
  "(\<forall>j<n. GetToken_rpc e (i + j) = Inr None) \<Longrightarrow>
   token_loop e i None =
     Option.bind (token_loop e (i + n) None) (\<lambda>(evs', r). Some (poll_events n @ evs', r))"
proof (induction n arbitrary: i)
  case 0
  show ?case by (simp add: poll_events_0 split_def)
next
  case (Suc n)
  from Suc.prems have first: "GetToken_rpc e i = Inr None"
    by (metis add.right_neutral zero_less_Suc)
  from Suc.prems have rest: "\<forall>j<n. GetToken_rpc e (Suc i + j) = Inr None"
    by (metis Suc_less_eq add_Suc_shift)
  have "token_loop e i None =
      Option.bind (token_loop e (Suc i) None) (\<lambda>(evs', r). Some (poll_events 1 @ evs', r))"
    by (subst token_loop_None) (simp add: first)
  also have "token_loop e (Suc i) None =
      Option.bind (token_loop e (Suc i + n) None) (\<lambda>(evs', r). Some (poll_events n @ evs', r))"
    by (rule Suc.IH [OF rest])
  finally show ?case
    by (cases "token_loop e (Suc (i + n)) None")
       (simp_all add: split_def poll_events_Suc poll_events_0)
qed

lemma token_loop_returns:
  assumes "\<forall>j<n. GetToken_rpc e (i + j) = Inr None" and "GetToken_rpc e (i + n) = Inr (Some t)"
  shows "token_loop e i None = Some (poll_events (Suc n), Inr t)"
proof -
  have "token_loop e (i + n) None = Some (poll_events 1, Inr t)"
    by (subst token_loop_None) (simp add: assms(2) token_loop_Some)
  with token_loop_skip [OF assms(1)] show ?thesis
    by (simp add: poll_events_snoc)
qed

lemma token_loop_raises:
  assumes "\<forall>j<n. GetToken_rpc e (i + j) = Inr None" and "GetToken_rpc e (i + n) = Inl ex"
  shows "token_loop e i None = Some (poll_events (Suc n), Inl ex)"
proof -
  have "token_loop e (i + n) None = Some (poll_events 1, Inl ex)"
    by (subst token_loop_None) (simp add: assms(2))
  with token_loop_skip [OF assms(1)] show ?thesis
    by (simp add: poll_events_snoc)
qed

lemma loop_shape_step:
  assumes "GetToken_rpc e i = Inr None" and "loop_shape e (Suc i) None (evs, r)"
  shows "loop_shape e i None (poll_events 1 @ evs, r)"
proof -
  from assms(2) obtain n where n: "evs = poll_events (Suc n)"
      "\<forall>j<n. GetToken_rpc e (Suc i + j) = Inr None"
      "case r of Inr t \<Rightarrow> GetToken_rpc e (Suc i + n) = Inr (Some t)
         | Inl ex \<Rightarrow> GetToken_rpc e (Suc i + n) = Inl ex"
    by (auto simp add: loop_shape_def)
  have 1: "poll_events 1 @ evs = poll_events (Suc (Suc n))"
    by (simp add: n(1) poll_events_Suc poll_events_0)
  have 2: "\<forall>j<Suc n. GetToken_rpc e (i + j) = Inr None"
  proof (intro allI impI)
    fix j assume "j < Suc n"
    then show "GetToken_rpc e (i + j) = Inr None"
      using assms(1) n(2) by (cases j) simp_all
  qed
  from n(3) have 3: "case r of Inr t \<Rightarrow> GetToken_rpc e (i + Suc n) = Inr (Some t)
         | Inl ex \<Rightarrow> GetToken_rpc e (i + Suc n) = Inl ex"
    by (cases r) simp_all
  from 1 2 3 show ?thesis
    unfolding loop_shape_def by (auto intro!: exI [of _ "Suc n"])
qed

lemma token_loop_shape:
  assumes "token_loop e i token = Some y"
  shows "loop_shape e i token y"
proof (rule token_loop.raw_induct [OF _ assms], goal_cases)
  case (1 f e i token y)
  show ?case
  proof (cases token)
    case (Some t)
    with 1(2) show ?thesis by (simp add: loop_shape_def)
  next
    case None
    show ?thesis
    proof (cases "GetToken_rpc e i")
      case (Inl ex)
      with None 1(2) have "y = (poll_events 1, Inl ex)"
        by (simp add: get_token_def poll_events_def)
      then show ?thesis
        using None Inl by (auto simp add: loop_shape_def intro!: exI [of _ 0])
    next
      case (Inr token')
      with None 1(2) obtain evs' r where
        rec: "f e (Suc i) token' = Some (evs', r)" and y: "y = (poll_events 1 @ evs', r)"
        by (auto simp add: get_token_def poll_events_def split: Option.bind_splits)
      from 1(1) [OF rec] have sh: "loop_shape e (Suc i) token' (evs', r)" .
      show ?thesis
      proof (cases token')
        case (Some t)
        with sh have "evs' = []" "r = Inr t" by (simp_all add: loop_shape_def)
        with None Inr Some y show ?thesis
          by (auto simp add: loop_shape_def intro!: exI [of _ 0])
      next
        case None': None
        from loop_shape_step [of e i evs' r] Inr None' sh y None show ?thesis by simp
      qed
    qed
  qed
qed

subsection \<open>The steps of a run\<close>

lemma token_loop_events:
  assumes "token_loop e i token = Some (evs, r)"
  shows "\<exists>n. evs = poll_events n \<and> (token = None \<longleftrightarrow> 0 < n)"
proof (cases token)
  case None
  with token_loop_shape [OF assms] show ?thesis
    by (auto simp add: loop_shape_def)
next
  case (Some t)
  with token_loop_shape [OF assms] show ?thesis
    by (auto simp add: loop_shape_def poll_events_0 intro!: exI [of _ 0])
qed

lemma outer_except_cases:
  "outer_except ex = ([], Inl ex) \<or>
   outer_except ex = ([Log INFO ''Closing connection''], Inr ()) \<or>
   outer_except ex = ([Log ERROR (''GRPC error occurred: '' @ str_exn ex)], Inr ())"
  by (simp add: outer_except_def)

lemma outer_except_events:
  "outer_except ex = (evs5, r) \<Longrightarrow>
   pushes evs5 = [] \<and> pulls evs5 = [] \<and> ChannelClose \<notin> set evs5 \<and> GetToken \<notin> set evs5"
  by (auto simp add: outer_except_def split: if_splits)

lemma fault_boundary_returns:
  "inner_try e message context rn = (Inr reply_message, message', context') \<Longrightarrow>
   fault_boundary e message context rn = ([], Inr (reply_message, context'))"
  by (simp add: fault_boundary_def)

lemma fault_boundary_caught:
  "inner_try e message context rn = (Inl ex, message', context') \<Longrightarrow>
   isinstance ex Exception \<Longrightarrow>
   exn_str_raises ex = None \<Longrightarrow>
   fault_boundary e message context rn =
     ([Log ERROR ''ClientApp raised an exception''],
      Inr (create_error_reply e message'
             (if isinstance ex LoadClientAppError
              then \<lparr>code = LOAD_CLIENT_APP_EXCEPTION, reason = load_reason\<rparr>
              else \<lparr>code = CLIENT_APP_RAISED_EXCEPTION,
                     reason = str_type ex @ '':<'' @ squote @ str_exn ex @ squote @ ''>''\<rparr>),
           context'))"
  by (simp add: fault_boundary_def except_clause_def call_str_def)

lemma fault_boundary_str_raises:
  "inner_try e message context rn = (Inl ex, message', context') \<Longrightarrow>
   isinstance ex Exception \<Longrightarrow>
   exn_str_raises ex = Some ex' \<Longrightarrow>
   fault_boundary e message context rn = ([], Inl ex')"
  by (simp add: fault_boundary_def except_clause_def call_str_def)

lemma fault_boundary_escapes:
  "inner_try e message context rn = (Inl ex, message', context') \<Longrightarrow>
   \<not> isinstance ex Exception \<Longrightarrow>
   fault_boundary e message context rn = ([], Inl ex)"
  by (simp add: fault_boundary_def except_clause_def)

lemma fault_boundary_events:
  "fst (fault_boundary e message context rn) = [] \<or>
   fst (fault_boundary e message context rn) = [Log ERROR ''ClientApp raised an exception'']"
  by (simp add: fault_boundary_def except_clause_def call_str_def
      split: prod.splits sum.splits option.splits)

lemma pushes_fault_boundary: "pushes (fst (fault_boundary e message context rn)) = []"
  using fault_boundary_events [of e message "context" rn] by auto

lemma pulls_fault_boundary: "pulls (fst (fault_boundary e message context rn)) = []"
  using fault_boundary_events [of e message "context" rn] by auto

text \<open>The body of the outer \<open>try\<close> once a token is there and the pull has returned.\<close>

lemma try_body_after_pull:
  assumes "token_loop e 0 token = Some (evs, Inr tok)"
    and "PullClientAppInputs_rpc e tok = Inr (message, context, rn)"
  shows "try_body e token =
     (case fault_boundary e message context rn of
        (evs3, Inl ex) \<Rightarrow> Some (evs @ [PullClientAppInputs tok] @ evs3, Inl ex)
      | (evs3, Inr (reply_message, context')) \<Rightarrow>
          (case PushClientAppOutputs_rpc e tok reply_message context' of
             Inl ex \<Rightarrow>
               Some (evs @ [PullClientAppInputs tok] @ evs3 @
                     [PushClientAppOutputs tok reply_message context'], Inl ex)
           | Inr _ \<Rightarrow>
               Some (evs @ [PullClientAppInputs tok] @ evs3 @
                     [PushClientAppOutputs tok reply_message context'], Inr ())))"
  using assms
  by (simp add: try_body_def pull_message_def push_message_def split: prod.splits sum.splits)

lemma run_clientapp_escaped:
  assumes "token_loop e 0 token = Some (evs, Inr tok)"
    and "PullClientAppInputs_rpc e tok = Inr (message, context, rn)"
    and "fault_boundary e message context rn = (evs3, Inl ex)"
    and "outer_except ex = (evs5, r)"
  shows "run_clientapp e supernode token =
     Some ([CreateChannel supernode, Subscribe] @ evs @ [PullClientAppInputs tok] @ evs3 @
           evs5 @ [ChannelClose], r)"
  by (simp add: run_clientapp_def try_body_after_pull [OF assms(1,2)] assms(3,4))

lemma run_clientapp_push_raises:
  assumes "token_loop e 0 token = Some (evs, Inr tok)"
    and "PullClientAppInputs_rpc e tok = Inr (message, context, rn)"
    and "fault_boundary e message context rn = (evs3, Inr (reply_message, context'))"
    and "PushClientAppOutputs_rpc e tok reply_message context' = Inl ex"
    and "outer_except ex = (evs5, r)"
  shows "run_clientapp e supernode token =
     Some ([CreateChannel supernode, Subscribe] @ evs @ [PullClientAppInputs tok] @ evs3 @
           [PushClientAppOutputs tok reply_message context'] @ evs5 @ [ChannelClose], r)"
  by (simp add: run_clientapp_def try_body_after_pull [OF assms(1,2)] assms(3,4,5))

lemma run_clientapp_completes:
  assumes "token_loop e 0 token = Some (evs, Inr tok)"
    and "PullClientAppInputs_rpc e tok = Inr (message, context, rn)"
    and "fault_boundary e message context rn = (evs3, Inr (reply_message, context'))"
    and "PushClientAppOutputs_rpc e tok reply_message context' = Inr u"
  shows "run_clientapp e supernode token =
     Some ([CreateChannel supernode, Subscribe] @ evs @ [PullClientAppInputs tok] @ evs3 @
           [PushClientAppOutputs tok reply_message context', ChannelClose], Inr ())"
  by (simp add: run_clientapp_def try_body_after_pull [OF assms(1,2)] assms(3,4))

lemma run_clientapp_pushes:
  assumes "token_loop e 0 token = Some (evs, Inr tok)"
    and "PullClientAppInputs_rpc e tok = Inr (message, context, rn)"
    and "fault_boundary e message context rn = (evs3, Inr (reply_message, context'))"
  shows "\<exists>tr out. run_clientapp e supernode token = Some (tr, out) \<and>
           pushes tr = [(tok, reply_message, context')] \<and> pulls tr = [tok]"
proof -
  from token_loop_events [OF assms(1)] obtain n where n: "evs = poll_events n" by blast
  from pushes_fault_boundary [of e message "context" rn] assms(3) have p3: "pushes evs3 = []"
    by simp
  from pulls_fault_boundary [of e message "context" rn] assms(3) have q3: "pulls evs3 = []"
    by simp
  note facts = n pushes_append pulls_append pushes_poll_events pulls_poll_events p3 q3
  show ?thesis
  proof (cases "PushClientAppOutputs_rpc e tok reply_message context'")
    case (Inl ex)
    obtain evs5 r where h: "outer_except ex = (evs5 :: ('a, 'b) event list, r)"
      by (cases "outer_except ex :: ('a, 'b) event list \<times> unit result")
    from outer_except_events [OF h]
    have "pushes evs5 = []" "pulls evs5 = []" by simp_all
    then show ?thesis
      by (simp add: run_clientapp_push_raises [OF assms Inl h] facts)
  next
    case (Inr u)
    show ?thesis
      by (simp add: run_clientapp_completes [OF assms Inr] facts)
  qed
qed

lemma try_body_completed:
  assumes "try_body e token = Some (evs, Inr u)"
  shows "\<exists>evs1 tok message context rn evs3 reply_message context'.
           token_loop e 0 token = Some (evs1, Inr tok) \<and>
           PullClientAppInputs_rpc e tok = Inr (message, context, rn) \<and>
           fault_boundary e message context rn = (evs3, Inr (reply_message, context')) \<and>
           PushClientAppOutputs_rpc e tok reply_message context' = Inr () \<and>
           evs = evs1 @ [PullClientAppInputs tok] @ evs3 @
                 [PushClientAppOutputs tok reply_message context']"
  using assms
  by (auto simp add: try_body_def pull_message_def push_message_def
      split: option.splits prod.splits sum.splits)

text \<open>The events of the body: the polls of the token loop first, then no further poll.\<close>

lemma try_body_events:
  assumes "try_body e token = Some (evs, r)"
  shows "\<exists>n rest. evs = poll_events n @ rest \<and> (token = None \<longleftrightarrow> 0 < n) \<and>
           GetToken \<notin> set rest \<and> ChannelClose \<notin> set rest \<and>
           (\<forall>s. CreateChannel s \<notin> set rest)"
proof -
  from assms obtain evs1 r1 where loop: "token_loop e 0 token = Some (evs1, r1)"
    by (auto simp add: try_body_def split: option.splits)
  from token_loop_events [OF loop] obtain n where
    n: "evs1 = poll_events n" "token = None \<longleftrightarrow> 0 < n" by blast
  have fb: "\<And>message context rn. GetToken \<notin> set (fst (fault_boundary e message context rn)) \<and>
        ChannelClose \<notin> set (fst (fault_boundary e message context rn)) \<and>
        (\<forall>s. CreateChannel s \<notin> set (fst (fault_boundary e message context rn)))"
  proof -
    fix message "context" rn
    from fault_boundary_events [of e message "context" rn]
    show "GetToken \<notin> set (fst (fault_boundary e message context rn)) \<and>
        ChannelClose \<notin> set (fst (fault_boundary e message context rn)) \<and>
        (\<forall>s. CreateChannel s \<notin> set (fst (fault_boundary e message context rn)))"
      by auto
  qed
  from assms loop obtain rest where rest: "evs = evs1 @ rest"
      "GetToken \<notin> set rest \<and> ChannelClose \<notin> set rest \<and> (\<forall>s. CreateChannel s \<notin> set rest)"
  proof (cases r1)
    case (Inl ex)
    with assms loop have "evs = evs1 @ []" by (simp add: try_body_def)
    then show ?thesis using that by simp
  next
    case (Inr tok)
    show ?thesis
    proof (cases "PullClientAppInputs_rpc e tok")
      case (Inl ex)
      with assms loop Inr have "evs = evs1 @ [PullClientAppInputs tok]"
        by (simp add: try_body_def pull_message_def)
      then show ?thesis using that by simp
    next
      case pull: (Inr w)
      obtain message "context" rn where w: "w = (message, context, rn)" by (cases w)
      obtain evs3 r3 where f: "fault_boundary e message context rn = (evs3, r3)"
        by (cases "fault_boundary e message context rn")
      from fb [of message "context" rn] f have e3:
        "GetToken \<notin> set evs3" "ChannelClose \<notin> set evs3" "\<forall>s. CreateChannel s \<notin> set evs3"
        by simp_all
      show ?thesis
      proof (cases r3)
        case (Inl ex)
        with assms loop Inr pull w f have "evs = evs1 @ ([PullClientAppInputs tok] @ evs3)"
          by (simp add: try_body_def pull_message_def)
        then show ?thesis using that e3 by simp
      next
        case r3: (Inr p)
        obtain reply_message context' where p: "p = (reply_message, context')" by (cases p)
        from assms loop Inr pull w f r3 p
        have "evs = evs1 @ ([PullClientAppInputs tok] @ evs3 @
                [PushClientAppOutputs tok reply_message context'])"
          by (simp add: try_body_def pull_message_def push_message_def split: sum.splits)
        then show ?thesis using that e3 by simp
      qed
    qed
  qed
  with n show ?thesis by blast
qed

lemma GetToken_in_poll_events: "GetToken \<in> set (poll_events n) \<longleftrightarrow> 0 < n"
  by (cases n) (simp_all add: poll_events_0 poll_events_Suc)

lemma ChannelClose_notin_poll_events: "ChannelClose \<notin> set (poll_events n)"
  using set_poll_events [of n] by auto

lemma CreateChannel_notin_poll_events: "CreateChannel s \<notin> set (poll_events n)"
  using set_poll_events [of n] by auto

lemma run_clientapp_trace:
  assumes "run_clientapp e supernode token = Some (tr, out)"
  shows "\<exists>evs r evs5. try_body e token = Some (evs, r) \<and>
           tr = [CreateChannel supernode, Subscribe] @ evs @ evs5 @ [ChannelClose] \<and>
           (case r of Inr u \<Rightarrow> evs5 = [] \<and> out = Inr ()
            | Inl ex \<Rightarrow> outer_except ex = (evs5, out))"
  using assms
  by (auto simp add: run_clientapp_def split: option.splits prod.splits sum.splits)

lemma scenario_B_loop: "token_loop scenario_B 0 None = Some (poll_events 3, Inr 42)"
proof -
  have "token_loop scenario_B 0 None = Some (poll_events (Suc 2), Inr 42)"
    by (rule token_loop_returns) (simp_all add: scenario_B_def supernode_env_def)
  then show ?thesis by (simp add: numeral_3_eq_3)
qed

lemma scenario_B_body:
  "try_body scenario_B None =
     Some (poll_events 3 @ [PullClientAppInputs 42, PushClientAppOutputs 42 (''R'', None) ''C+''],
           Inr ())"
proof -
  have pull: "PullClientAppInputs_rpc scenario_B 42 =
      Inr ((''M'', None), ''C'', \<lparr>fab_id = ''flwr/app'', fab_version = ''1.0''\<rparr>)"
    by (simp add: scenario_B_def supernode_env_def)
  have "inner_try scenario_B (''M'', None) ''C'' \<lparr>fab_id = ''flwr/app'', fab_version = ''1.0''\<rparr> =
      (Inr (''R'', None), (''M'', None), ''C+'')"
    by (simp add: inner_try_def scenario_B_def supernode_env_def app_returns_def)
  then have fb: "fault_boundary scenario_B (''M'', None) ''C''
      \<lparr>fab_id = ''flwr/app'', fab_version = ''1.0''\<rparr> = ([], Inr ((''R'', None), ''C+''))"
    by (rule fault_boundary_returns)
  have push: "PushClientAppOutputs_rpc scenario_B 42 (''R'', None) ''C+'' = Inr ()"
    by (simp add: scenario_B_def supernode_env_def)
  show ?thesis
    by (simp add: try_body_after_pull [OF scenario_B_loop pull] fb push)
qed

lemma scenario_B_run:
  "run_clientapp scenario_B ''supernode'' None =
     Some ([CreateChannel ''supernode'', Subscribe] @ poll_events 3 @
           [PullClientAppInputs 42, PushClientAppOutputs 42 (''R'', None) ''C+'', ChannelClose],
           Inr ())"
  by (simp add: run_clientapp_def scenario_B_body)

lemma count_poll_events_ChannelClose: "count_list (poll_events n) ChannelClose = 0"
  by (simp add: ChannelClose_notin_poll_events)

lemma count_poll_events_CreateChannel: "count_list (poll_events n) (CreateChannel s) = 0"
  by (simp add: CreateChannel_notin_poll_events)

lemma scenario_E_body:
  "try_body scenario_E (Some 7) =
     Some ([PullClientAppInputs 7, PushClientAppOutputs 7 (''R'', None) ''C+''], Inl rpc_error)"
proof -
  have loop: "token_loop scenario_E 0 (Some 7) = Some ([], Inr 7)"
    by (rule token_loop_Some)
  have pull: "PullClientAppInputs_rpc scenario_E 7 =
      Inr ((''M'', None), ''C'', \<lparr>fab_id = ''flwr/app'', fab_version = ''1.0''\<rparr>)"
    by (simp add: scenario_E_def supernode_env_def)
  have "inner_try scenario_E (''M'', None) ''C'' \<lparr>fab_id = ''flwr/app'', fab_version = ''1.0''\<rparr> =
      (Inr (''R'', None), (''M'', None), ''C+'')"
    by (simp add: inner_try_def scenario_E_def supernode_env_def app_returns_def)
  then have fb: "fault_boundary scenario_E (''M'', None) ''C''
      \<lparr>fab_id = ''flwr/app'', fab_version = ''1.0''\<rparr> = ([], Inr ((''R'', None), ''C+''))"
    by (rule fault_boundary_returns)
  have push: "PushClientAppOutputs_rpc scenario_E 7 (''R'', None) ''C+'' = Inl rpc_error"
    by (simp add: scenario_E_def supernode_env_def)
  show ?thesis
    by (simp add: try_body_after_pull [OF loop pull] fb push)
qed

lemma outer_except_rpc_error:
  "outer_except rpc_error =
     ([Log ERROR ''GRPC error occurred: failed to connect to all addresses''], Inr ())"
  by (simp add: outer_except_def isinstance_def rpc_error_def str_exn_def)

lemma scenario_E_run:
  "run_clientapp scenario_E ''supernode'' (Some 7) =
     Some ([CreateChannel ''supernode'', Subscribe, PullClientAppInputs 7,
            PushClientAppOutputs 7 (''R'', None) ''C+'',
            Log ERROR ''GRPC error occurred: failed to connect to all addresses'',
            ChannelClose], Inr ())"
  by (simp add: run_clientapp_def scenario_E_body outer_except_rpc_error)

lemma scenario_loader_raises_simps:
  "PullClientAppInputs_rpc (scenario_loader_raises ex) t = Inr ((''M'', None), ''C'', the_run)"
  "load_client_app_fn (scenario_loader_raises ex) (fab_id the_run) (fab_version the_run) = Inl ex"
  "PushClientAppOutputs_rpc (scenario_loader_raises ex) t m c = Inr ()"
  "create_error_reply (scenario_loader_raises ex) m err = (fst m, Some err)"
  "inner_try (scenario_loader_raises ex) (''M'', None) ''C'' the_run = (Inl ex, (''M'', None), ''C'')"
  by (simp_all add: scenario_loader_raises_def supernode_env_def the_run_def inner_try_def
      reply_with_error_def)

lemma scenario_app_raises_simps:
  "PullClientAppInputs_rpc (scenario_app_raises ex) t = Inr ((''M'', None), ''C'', the_run)"
  "load_client_app_fn (scenario_app_raises ex) (fab_id the_run) (fab_version the_run) =
     Inr (app_raises ex)"
  "PushClientAppOutputs_rpc (scenario_app_raises ex) t m c = Inr ()"
  "create_error_reply (scenario_app_raises ex) m err = (fst m, Some err)"
  "inner_try (scenario_app_raises ex) (''M'', None) ''C'' the_run = (Inl ex, (''M'', None), ''C+'')"
  by (simp_all add: scenario_app_raises_def supernode_env_def the_run_def inner_try_def
      reply_with_error_def app_raises_def)

lemma run_clientapp_caught:
  assumes "token_loop e 0 token = Some (evs, Inr tok)"
    and "PullClientAppInputs_rpc e tok = Inr (message, context, rn)"
    and "inner_try e message context rn = (Inl ex, message', context')"
    and "isinstance ex Exception"
    and "exn_str_raises ex = None"
  shows "\<exists>tr out. run_clientapp e supernode token = Some (tr, out) \<and>
           pushes tr =
             [(tok,
               create_error_reply e message'
                 (if isinstance ex LoadClientAppError
                  then \<lparr>code = LOAD_CLIENT_APP_EXCEPTION, reason = load_reason\<rparr>
                  else \<lparr>code = CLIENT_APP_RAISED_EXCEPTION,
                         reason = str_type ex @ '':<'' @ squote @ str_exn ex @ squote @ ''>''\<rparr>),
               context')]"
  using run_clientapp_pushes [OF assms(1,2) fault_boundary_caught [OF assms(3,4,5)]] by blast

text \<open>A run whose fault boundary raises pushes nothing.\<close>

lemma run_clientapp_no_reply:
  assumes "token_loop e 0 token = Some (evs, Inr tok)"
    and "PullClientAppInputs_rpc e tok = Inr (message, context, rn)"
    and "fault_boundary e message context rn = (evs3, Inl ex)"
  shows "\<exists>tr out. run_clientapp e supernode token = Some (tr, out) \<and>
           pushes tr = [] \<and> pulls tr = [tok]"
proof -
  from token_loop_events [OF assms(1)] obtain k where k: "evs = poll_events k" by blast
  obtain evs5 r where h: "outer_except ex = (evs5 :: ('a, 'b) event list, r)"
    by (cases "outer_except ex :: ('a, 'b) event list \<times> unit result")
  from outer_except_events [OF h] have e5: "pushes evs5 = []" "pulls evs5 = []" by simp_all
  from pushes_fault_boundary [of e message "context" rn] assms(3) have p3: "pushes evs3 = []"
    by simp
  from pulls_fault_boundary [of e message "context" rn] assms(3) have q3: "pulls evs3 = []"
    by simp
  show ?thesis
    by (simp add: run_clientapp_escaped [OF assms h] k pushes_append pulls_append
        pushes_poll_events pulls_poll_events e5 p3 q3)
qed


lemma load_reason_text:
  "load_reason = ''An exception was raised when attempting to load `ClientApp`''"
  by (simp add: load_reason_def)

lemma zero_division_fields:
  "exn_class_name zero_division = ''ZeroDivisionError''"
  "exn_text zero_division = ''division by zero''"
  "isinstance zero_division Exception"
  "\<not> isinstance zero_division LoadClientAppError"
  "exn_str_raises zero_division = None"
  by (simp_all add: zero_division_def isinstance_def)

lemma scenario_D_app: "scenario_D = scenario_app_raises zero_division"
  by (simp add: scenario_D_def scenario_app_raises_def)


lemma load_error_fields:
  "isinstance load_error Exception"
  "isinstance load_error LoadClientAppError"
  "exn_str_raises load_error = None"
  by (simp_all add: load_error_def isinstance_def)

lemma file_not_found_fields:
  "exn_class_name file_not_found = ''FileNotFoundError''"
  "exn_text file_not_found = ''app.toml missing''"
  "isinstance file_not_found Exception"
  "\<not> isinstance file_not_found LoadClientAppError"
  "exn_str_raises file_not_found = None"
  by (simp_all add: file_not_found_def isinstance_def)

text \<open>A run of a scenario with a token whose loader or application raises a caught exception.\<close>

lemma run_clientapp_scenario_caught:
  assumes "PullClientAppInputs_rpc e 7 = Inr ((''M'', None), ''C'', the_run)"
    and "inner_try e (''M'', None) ''C'' the_run = (Inl ex, (''M'', None), c')"
    and "isinstance ex Exception \<and> exn_str_raises ex = None"
    and "PushClientAppOutputs_rpc e 7 (create_error_reply e (''M'', None) err) c' = Inr ()"
    and "err = (if isinstance ex LoadClientAppError
                then \<lparr>code = LOAD_CLIENT_APP_EXCEPTION, reason = load_reason\<rparr>
                else \<lparr>code = CLIENT_APP_RAISED_EXCEPTION,
                       reason = str_type ex @ '':<'' @ squote @ str_exn ex @ squote @ ''>''\<rparr>)"
  shows "run_clientapp e ''supernode'' (Some 7) =
     Some ([CreateChannel ''supernode'', Subscribe, PullClientAppInputs 7,
            Log ERROR ''ClientApp raised an exception'',
            PushClientAppOutputs 7 (create_error_reply e (''M'', None) err) c', ChannelClose],
           Inr ())"
proof -
  have loop: "token_loop e 0 (Some 7) = Some ([], Inr 7)"
    by (rule token_loop_Some)
  from fault_boundary_caught [OF assms(2) conjunct1 [OF assms(3)] conjunct2 [OF assms(3)]]
    assms(5)
  have fb: "fault_boundary e (''M'', None) ''C'' the_run =
      ([Log ERROR ''ClientApp raised an exception''],
       Inr (create_error_reply e (''M'', None) err, c'))"
    by simp
  from run_clientapp_completes [OF loop assms(1) fb assms(4), of "''supernode''"]
  show ?thesis by simp
qed

lemma broken_str_fields:
  "isinstance broken_str Exception"
  "\<not> isinstance broken_str LoadClientAppError"
  "exn_str_raises broken_str = Some str_type_error"
  by (simp_all add: broken_str_def isinstance_def)

lemma str_type_error_fields:
  "\<not> isinstance str_type_error KeyboardInterrupt"
  "\<not> isinstance str_type_error RpcError"
  by (simp_all add: str_type_error_def isinstance_def)

lemma inner_try_loader_raises:
  "load_client_app_fn e (fab_id rn) (fab_version rn) = Inl ex \<Longrightarrow>
   inner_try e message context rn = (Inl ex, message, context)"
  by (simp add: inner_try_def)

lemma inner_try_loaded:
  "load_client_app_fn e (fab_id rn) (fab_version rn) = Inr client_app \<Longrightarrow>
   inner_try e message context rn = client_app message context"
  by (simp add: inner_try_def)




text \<open>What a run pushes when loading or calling the \<open>ClientApp\<close> raises.\<close>

lemma run_clientapp_inner_raises:
  assumes "token_loop e 0 token = Some (evs, Inr tok)"
    and "PullClientAppInputs_rpc e tok = Inr (message, context, rn)"
    and "inner_try e message context rn = (Inl ex, message', context')"
  shows "\<exists>tr out.
           run_clientapp e supernode token = Some (tr, out) \<and>
           pushes tr =
             (if isinstance ex Exception \<and> exn_str_raises ex = None
              then [(tok,
                     create_error_reply e message'
                       (if isinstance ex LoadClientAppError
                        then \<lparr>code = LOAD_CLIENT_APP_EXCEPTION, reason = load_reason\<rparr>
                        else \<lparr>code = CLIENT_APP_RAISED_EXCEPTION,
                               reason =
                                 str_type ex @ '':<'' @ squote @ str_exn ex @ squote @ ''>''\<rparr>),
                     context')]
              else [])"
proof (cases "isinstance ex Exception")
  case False
  from run_clientapp_no_reply [OF assms(1,2) fault_boundary_escapes [OF assms(3) False],
      of supernode] False
  show ?thesis by auto
next
  case True
  show ?thesis
  proof (cases "exn_str_raises ex")
    case None
    from run_clientapp_caught [OF assms True None, of supernode] True None
    show ?thesis by simp
  next
    case (Some ex')
    from run_clientapp_no_reply [OF assms(1,2) fault_boundary_str_raises [OF assms(3) True Some],
        of supernode] Some
    show ?thesis by auto
  qed
qed

lemma scenario_loop: "token_loop e 0 (Some 7) = Some ([], Inr 7)"
  by (rule token_loop_Some)

subsection \<open>The claims\<close>

text \<open>
  C4. When the \<open>ClientApp\<close> is loaded and returns, the message pushed to the SuperNode is
  the value it returned, and the context pushed is the context as the call left it. The
  push is made with the token of the pull, exactly once.
\<close>

theorem success_reply:
  assumes "token_loop e 0 token = Some (evs, Inr tok)"
    and "PullClientAppInputs_rpc e tok = Inr (message, context, rn)"
    and "load_client_app_fn e (fab_id rn) (fab_version rn) = Inr client_app"
    and "client_app message context = (Inr reply_message, message', context')"
  shows "\<exists>tr out. run_clientapp e supernode token = Some (tr, out) \<and>
           pushes tr = [(tok, reply_message, context')]"
proof -
  have "inner_try e message context rn = (Inr reply_message, message', context')"
    by (simp add: inner_try_def assms(3,4))
  then have "fault_boundary e message context rn = ([], Inr (reply_message, context'))"
    by (rule fault_boundary_returns)
  from run_clientapp_pushes [OF assms(1,2) this] show ?thesis by blast
qed

theorem success_reply_witness:
  "token_loop scenario_A 0 (Some 7) = Some ([], Inr 7) \<and>
   PullClientAppInputs_rpc scenario_A 7 =
     Inr ((''M'', None), ''C'', \<lparr>fab_id = ''flwr/app'', fab_version = ''1.0''\<rparr>) \<and>
   load_client_app_fn scenario_A ''flwr/app'' ''1.0'' = Inr app_returns \<and>
   app_returns (''M'', None) ''C'' = (Inr (''R'', None), (''M'', None), ''C+'') \<and>
   (\<exists>tr out. run_clientapp scenario_A ''supernode'' (Some 7) = Some (tr, out) \<and>
      pushes tr = [(7, (''R'', None), ''C+'')])"
proof -
  have 1: "token_loop scenario_A 0 (Some 7) = Some ([], Inr 7)"
    by (rule token_loop_Some)
  have 2: "PullClientAppInputs_rpc scenario_A 7 =
     Inr ((''M'', None), ''C'', \<lparr>fab_id = ''flwr/app'', fab_version = ''1.0''\<rparr>)"
    by (simp add: scenario_A_def supernode_env_def)
  have 3: "load_client_app_fn scenario_A
      (fab_id \<lparr>fab_id = ''flwr/app'', fab_version = ''1.0''\<rparr>)
      (fab_version \<lparr>fab_id = ''flwr/app'', fab_version = ''1.0''\<rparr>) = Inr app_returns"
    by (simp add: scenario_A_def supernode_env_def)
  have 4: "app_returns (''M'', None) ''C'' = (Inr (''R'', None), (''M'', None), ''C+'')"
    by (simp add: app_returns_def)
  from success_reply [OF 1 2 3 4, of "''supernode''"] 1 2 3 4 show ?thesis by simp
qed

text \<open>
  C5. In a run whose guarded block completes without an exception there is exactly one
  \<open>PullClientAppInputs\<close> call and exactly one \<open>PushClientAppOutputs\<close> call, and both carry
  the same token: the token given at the start, or else the first token that \<open>GetToken\<close>
  returned after answering \<open>None\<close> until then.
\<close>

theorem one_pull_one_push:
  assumes "try_body e token = Some (evs, Inr ())"
  shows "\<exists>tr tok. run_clientapp e supernode token = Some (tr, Inr ()) \<and>
           pulls tr = [tok] \<and> map fst (pushes tr) = [tok] \<and>
           (\<forall>t. token = Some t \<longrightarrow> tok = t) \<and>
           (token = None \<longrightarrow>
              (\<exists>n. (\<forall>j<n. GetToken_rpc e j = Inr None) \<and> GetToken_rpc e n = Inr (Some tok)))"
proof -
  from try_body_completed [OF assms] obtain evs1 tok message "context" rn evs3 reply_message context'
    where loop: "token_loop e 0 token = Some (evs1, Inr tok)"
      and pull: "PullClientAppInputs_rpc e tok = Inr (message, context, rn)"
      and fb: "fault_boundary e message context rn = (evs3, Inr (reply_message, context'))"
      and push: "PushClientAppOutputs_rpc e tok reply_message context' = Inr ()"
      and evs: "evs = evs1 @ [PullClientAppInputs tok] @ evs3 @
                 [PushClientAppOutputs tok reply_message context']"
    by blast
  from token_loop_events [OF loop] obtain n where n: "evs1 = poll_events n" by blast
  from pushes_fault_boundary [of e message "context" rn] fb have p3: "pushes evs3 = []" by simp
  from pulls_fault_boundary [of e message "context" rn] fb have q3: "pulls evs3 = []" by simp
  let ?tr = "[CreateChannel supernode, Subscribe] @ evs @ [ChannelClose]"
  have run: "run_clientapp e supernode token = Some (?tr, Inr ())"
    by (simp add: run_clientapp_def assms)
  have pl: "pulls ?tr = [tok]"
    by (simp add: evs n pulls_append pulls_poll_events q3)
  have ps: "map fst (pushes ?tr) = [tok]"
    by (simp add: evs n pushes_append pushes_poll_events p3)
  have given: "\<forall>t. token = Some t \<longrightarrow> tok = t"
    using token_loop_shape [OF loop] by (auto simp add: loop_shape_def)
  have polled: "token = None \<longrightarrow>
      (\<exists>n. (\<forall>j<n. GetToken_rpc e j = Inr None) \<and> GetToken_rpc e n = Inr (Some tok))"
  proof
    assume "token = None"
    with token_loop_shape [OF loop] obtain k where
      "\<forall>j<k. GetToken_rpc e j = Inr None" "GetToken_rpc e k = Inr (Some tok)"
      by (auto simp add: loop_shape_def)
    then show "\<exists>n. (\<forall>j<n. GetToken_rpc e j = Inr None) \<and> GetToken_rpc e n = Inr (Some tok)"
      by blast
  qed
  show ?thesis
    by (rule exI [of _ ?tr], rule exI [of _ tok]) (intro conjI run pl ps given polled)
qed

theorem one_pull_one_push_witness:
  "try_body scenario_B None =
     Some (poll_events 3 @ [PullClientAppInputs 42, PushClientAppOutputs 42 (''R'', None) ''C+''],
           Inr ()) \<and>
   (\<exists>tr. run_clientapp scenario_B ''supernode'' None = Some (tr, Inr ()) \<and>
      pulls tr = [42] \<and> map fst (pushes tr) = [42]) \<and>
   GetToken_rpc scenario_B 0 = Inr None \<and> GetToken_rpc scenario_B 1 = Inr None \<and>
   GetToken_rpc scenario_B 2 = Inr (Some 42)"
proof -
  from one_pull_one_push [OF scenario_B_body, of "''supernode''"] obtain tr tok where
    run: "run_clientapp scenario_B ''supernode'' None = Some (tr, Inr ())" and
    one: "pulls tr = [tok]" "map fst (pushes tr) = [tok]"
    by (elim exE conjE)
  from run scenario_B_run have
    "tr = [CreateChannel ''supernode'', Subscribe] @ poll_events 3 @
       [PullClientAppInputs 42, PushClientAppOutputs 42 (''R'', None) ''C+'', ChannelClose]"
    by simp
  with one(1) have "tok = 42"
    by (simp add: pulls_append pulls_poll_events)
  with run one have "\<exists>tr. run_clientapp scenario_B ''supernode'' None = Some (tr, Inr ()) \<and>
      pulls tr = [42] \<and> map fst (pushes tr) = [42]"
    by (intro exI [of _ tr]) simp
  moreover have "GetToken_rpc scenario_B 0 = Inr None \<and> GetToken_rpc scenario_B 1 = Inr None \<and>
      GetToken_rpc scenario_B 2 = Inr (Some 42)"
    by (simp add: scenario_B_def supernode_env_def)
  ultimately show ?thesis using scenario_B_body by (intro conjI) simp_all
qed

text \<open>
  C6. \<open>GetToken\<close> is called exactly when no token was given at the start: a returning run
  contains a \<open>GetToken\<close> call if and only if the token was \<open>None\<close>, and a run with a token
  always returns and never calls it. With no token, when the SuperNode answers \<open>None\<close> to
  the first \<open>n\<close> calls and the token \<open>t\<close> to the next one, the run makes exactly \<open>n + 1\<close>
  \<open>GetToken\<close> calls, then \<open>PullClientAppInputs t\<close>, and no \<open>GetToken\<close> call after it.
\<close>

theorem get_token_iff_no_token:
  "(\<forall>tr out. run_clientapp (e :: ('m, 'c) env) supernode token = Some (tr, out) \<longrightarrow>
      (GetToken \<in> set tr \<longleftrightarrow> token = None)) \<and>
   (\<exists>tr out. run_clientapp e supernode (Some t) = Some (tr, out) \<and> GetToken \<notin> set tr) \<and>
   ((\<forall>j<n. GetToken_rpc e j = Inr None) \<and> GetToken_rpc e n = Inr (Some t) \<longrightarrow>
      (\<exists>rest out.
         run_clientapp e supernode None =
           Some ([CreateChannel supernode, Subscribe] @ poll_events (Suc n) @
                 PullClientAppInputs t # rest, out) \<and>
         count_list (poll_events (Suc n) :: ('m, 'c) event list) GetToken = Suc n \<and>
         GetToken \<notin> set rest))"
proof (intro conjI allI impI)
  fix tr out
  assume run: "run_clientapp e supernode token = Some (tr, out)"
  from run_clientapp_trace [OF run] obtain evs r evs5 where
    body: "try_body e token = Some (evs, r)" and
    tr: "tr = [CreateChannel supernode, Subscribe] @ evs @ evs5 @ [ChannelClose]" and
    h: "case r of Inr u \<Rightarrow> evs5 = [] \<and> out = Inr () | Inl ex \<Rightarrow> outer_except ex = (evs5, out)"
    by blast
  from h have e5: "GetToken \<notin> set evs5"
    by (cases r) (auto dest: outer_except_events)
  from try_body_events [OF body] obtain k rest where
    evs: "evs = poll_events k @ rest" and k: "token = None \<longleftrightarrow> 0 < k" and
    rest: "GetToken \<notin> set rest" by blast
  show "GetToken \<in> set tr \<longleftrightarrow> token = None"
    using e5 rest k by (simp add: tr evs GetToken_in_poll_events)
next
  have always: "\<exists>tr out. run_clientapp e supernode (Some t) = Some (tr, out)"
    by (simp add: run_clientapp_def try_body_def token_loop_Some
        split: prod.splits sum.splits)
  then obtain tr out where run: "run_clientapp e supernode (Some t) = Some (tr, out)" by blast
  from run_clientapp_trace [OF run] obtain evs r evs5 where
    body: "try_body e (Some t) = Some (evs, r)" and
    tr: "tr = [CreateChannel supernode, Subscribe] @ evs @ evs5 @ [ChannelClose]" and
    h: "case r of Inr u \<Rightarrow> evs5 = [] \<and> out = Inr () | Inl ex \<Rightarrow> outer_except ex = (evs5, out)"
    by blast
  from h have e5: "GetToken \<notin> set evs5"
    by (cases r) (auto dest: outer_except_events)
  from try_body_events [OF body] obtain k rest where
    evs: "evs = poll_events k @ rest" and k: "Some t = None \<longleftrightarrow> 0 < k" and
    rest: "GetToken \<notin> set rest" by blast
  have "GetToken \<notin> set tr"
    using e5 rest k by (simp add: tr evs GetToken_in_poll_events)
  with run show "\<exists>tr out. run_clientapp e supernode (Some t) = Some (tr, out) \<and> GetToken \<notin> set tr"
    by blast
next
  assume a: "(\<forall>j<n. GetToken_rpc e j = Inr None) \<and> GetToken_rpc e n = Inr (Some t)"
  then have loop: "token_loop e 0 None = Some (poll_events (Suc n), Inr t)"
    by (intro token_loop_returns) simp_all
  have "\<exists>rest out. try_body e None =
          Some (poll_events (Suc n) @ PullClientAppInputs t # rest, out) \<and>
          GetToken \<notin> set rest"
  proof (cases "PullClientAppInputs_rpc e t")
    case (Inl ex)
    with loop have "try_body e None = Some (poll_events (Suc n) @ PullClientAppInputs t # [], Inl ex)"
      by (simp add: try_body_def pull_message_def)
    then show ?thesis by (intro exI [of _ "[]"]) simp
  next
    case (Inr w)
    obtain message "context" rn where w: "w = (message, context, rn)" by (cases w)
    obtain evs3 r3 where f: "fault_boundary e message context rn = (evs3, r3)"
      by (cases "fault_boundary e message context rn")
    from fault_boundary_events [of e message "context" rn] f have e3: "GetToken \<notin> set evs3"
      by auto
    from try_body_after_pull [OF loop Inr [unfolded w]] f e3 show ?thesis
      by (auto split: sum.splits prod.splits)
  qed
  then obtain rest r where body:
    "try_body e None = Some (poll_events (Suc n) @ PullClientAppInputs t # rest, r)"
    and rest: "GetToken \<notin> set rest" by blast
  obtain evs5 out where tail:
    "run_clientapp e supernode None =
       Some ([CreateChannel supernode, Subscribe] @ poll_events (Suc n) @
             PullClientAppInputs t # (rest @ evs5 @ [ChannelClose]), out)"
    and e5: "GetToken \<notin> set evs5"
  proof (cases r)
    case (Inl ex)
    obtain evs5 out where h: "outer_except ex = (evs5 :: ('m, 'c) event list, out)"
      by (cases "outer_except ex :: ('m, 'c) event list \<times> unit result")
    from outer_except_events [OF h] have "GetToken \<notin> set evs5" by simp
    moreover have "run_clientapp e supernode None =
       Some ([CreateChannel supernode, Subscribe] @ poll_events (Suc n) @
             PullClientAppInputs t # (rest @ evs5 @ [ChannelClose]), out)"
      by (simp add: run_clientapp_def body Inl h)
    ultimately show ?thesis using that by blast
  next
    case (Inr u)
    have "run_clientapp e supernode None =
       Some ([CreateChannel supernode, Subscribe] @ poll_events (Suc n) @
             PullClientAppInputs t # (rest @ [] @ [ChannelClose]), Inr ())"
      by (simp add: run_clientapp_def body Inr)
    then show ?thesis using that [of "[]" "Inr ()"] by simp
  qed
  from tail e5 rest
  show "\<exists>rest out.
         run_clientapp e supernode None =
           Some ([CreateChannel supernode, Subscribe] @ poll_events (Suc n) @
                 PullClientAppInputs t # rest, out) \<and>
         count_list (poll_events (Suc n) :: ('m, 'c) event list) GetToken = Suc n \<and>
         GetToken \<notin> set rest"
    by (intro exI [of _ "rest @ evs5 @ [ChannelClose]"] exI [of _ out])
       (simp add: count_GetToken_poll_events)
qed

theorem get_token_iff_no_token_witness:
  "GetToken_rpc scenario_B 0 = Inr None \<and> GetToken_rpc scenario_B 1 = Inr None \<and>
   GetToken_rpc scenario_B 2 = Inr (Some 42) \<and>
   (\<exists>rest out.
      run_clientapp scenario_B ''supernode'' None =
        Some ([CreateChannel ''supernode'', Subscribe] @ poll_events (Suc 2) @
              PullClientAppInputs 42 # rest, out) \<and>
      count_list (poll_events (Suc 2) :: (string \<times> error option, string) event list) GetToken =
        Suc 2 \<and>
      GetToken \<notin> set rest) \<and>
   (\<exists>tr out. run_clientapp scenario_B ''supernode'' None = Some (tr, out) \<and> GetToken \<in> set tr) \<and>
   (\<exists>tr out. run_clientapp scenario_B ''supernode'' (Some 42) = Some (tr, out) \<and>
      GetToken \<notin> set tr)"
proof -
  have a: "(\<forall>j<2. GetToken_rpc scenario_B j = Inr None) \<and>
      GetToken_rpc scenario_B 2 = Inr (Some 42)"
    by (simp add: scenario_B_def supernode_env_def)
  note inst = get_token_iff_no_token [where e = scenario_B and supernode = "''supernode''"
      and token = None and n = 2 and t = 42]
  from inst scenario_B_run have b:
    "\<exists>tr out. run_clientapp scenario_B ''supernode'' None = Some (tr, out) \<and> GetToken \<in> set tr"
    by blast
  have c: "GetToken_rpc scenario_B 0 = Inr None \<and> GetToken_rpc scenario_B 1 = Inr None \<and>
      GetToken_rpc scenario_B 2 = Inr (Some 42)"
    by (simp add: scenario_B_def supernode_env_def)
  from inst a b c show ?thesis by blast
qed

text \<open>
  C8. Every run that returns or raises closes the channel exactly once, as its last action,
  after creating it exactly once as its first. When the body of the outer \<open>try\<close> completes,
  nothing is logged before the close; when it raises a \<open>KeyboardInterrupt\<close>, the line
  \<open>Closing connection\<close> is logged at level INFO and the run returns; when it raises a
  \<open>grpc.RpcError\<close>, the line \<open>GRPC error occurred: ...\<close> is logged at level ERROR and the
  run returns; any other exception is raised again after the close.
\<close>

theorem channel_closed_once:
  assumes "run_clientapp e supernode token = Some (tr, out)"
  shows "count_list tr ChannelClose = 1 \<and> last tr = ChannelClose \<and>
         count_list tr (CreateChannel supernode) = 1 \<and> hd tr = CreateChannel supernode \<and>
         (\<exists>evs r. try_body e token = Some (evs, r) \<and>
            (case r of
               Inr u \<Rightarrow>
                 tr = [CreateChannel supernode, Subscribe] @ evs @ [ChannelClose] \<and> out = Inr ()
             | Inl ex \<Rightarrow>
                 if isinstance ex KeyboardInterrupt then
                   tr = [CreateChannel supernode, Subscribe] @ evs @
                        [Log INFO ''Closing connection'', ChannelClose] \<and> out = Inr ()
                 else if isinstance ex RpcError then
                   tr = [CreateChannel supernode, Subscribe] @ evs @
                        [Log ERROR (''GRPC error occurred: '' @ str_exn ex), ChannelClose] \<and>
                   out = Inr ()
                 else
                   tr = [CreateChannel supernode, Subscribe] @ evs @ [ChannelClose] \<and>
                   out = Inl ex))"
proof -
  from run_clientapp_trace [OF assms] obtain evs r evs5 where
    body: "try_body e token = Some (evs, r)" and
    tr: "tr = [CreateChannel supernode, Subscribe] @ evs @ evs5 @ [ChannelClose]" and
    h: "case r of Inr u \<Rightarrow> evs5 = [] \<and> out = Inr () | Inl ex \<Rightarrow> outer_except ex = (evs5, out)"
    by blast
  from h have e5: "ChannelClose \<notin> set evs5" "CreateChannel supernode \<notin> set evs5"
    by (cases r; auto simp add: outer_except_def split: if_splits)+
  from try_body_events [OF body] obtain k rest where
    evs: "evs = poll_events k @ rest" and
    rest: "ChannelClose \<notin> set rest" "\<forall>s. CreateChannel s \<notin> set rest" by blast
  have closes: "count_list tr ChannelClose = 1"
    using e5 rest by (simp add: tr evs count_poll_events_ChannelClose)
  have opens: "count_list tr (CreateChannel supernode) = 1"
    using e5 rest by (simp add: tr evs count_poll_events_CreateChannel)
  have ends: "last tr = ChannelClose" "hd tr = CreateChannel supernode"
    by (simp_all add: tr)
  have paths: "case r of
               Inr u \<Rightarrow>
                 tr = [CreateChannel supernode, Subscribe] @ evs @ [ChannelClose] \<and> out = Inr ()
             | Inl ex \<Rightarrow>
                 if isinstance ex KeyboardInterrupt then
                   tr = [CreateChannel supernode, Subscribe] @ evs @
                        [Log INFO ''Closing connection'', ChannelClose] \<and> out = Inr ()
                 else if isinstance ex RpcError then
                   tr = [CreateChannel supernode, Subscribe] @ evs @
                        [Log ERROR (''GRPC error occurred: '' @ str_exn ex), ChannelClose] \<and>
                   out = Inr ()
                 else
                   tr = [CreateChannel supernode, Subscribe] @ evs @ [ChannelClose] \<and>
                   out = Inl ex"
    using h by (cases r) (auto simp add: tr outer_except_def split: if_splits)
  from body paths have "\<exists>evs r. try_body e token = Some (evs, r) \<and>
            (case r of
               Inr u \<Rightarrow>
                 tr = [CreateChannel supernode, Subscribe] @ evs @ [ChannelClose] \<and> out = Inr ()
             | Inl ex \<Rightarrow>
                 if isinstance ex KeyboardInterrupt then
                   tr = [CreateChannel supernode, Subscribe] @ evs @
                        [Log INFO ''Closing connection'', ChannelClose] \<and> out = Inr ()
                 else if isinstance ex RpcError then
                   tr = [CreateChannel supernode, Subscribe] @ evs @
                        [Log ERROR (''GRPC error occurred: '' @ str_exn ex), ChannelClose] \<and>
                   out = Inr ()
                 else
                   tr = [CreateChannel supernode, Subscribe] @ evs @ [ChannelClose] \<and>
                   out = Inl ex)"
    by (intro exI [of _ evs] exI [of _ r] conjI)
  with closes opens ends show ?thesis by (intro conjI)
qed

theorem channel_closed_once_witness:
  "run_clientapp scenario_E ''supernode'' (Some 7) =
     Some ([CreateChannel ''supernode'', Subscribe, PullClientAppInputs 7,
            PushClientAppOutputs 7 (''R'', None) ''C+'',
            Log ERROR ''GRPC error occurred: failed to connect to all addresses'',
            ChannelClose], Inr ()) \<and>
   count_list [CreateChannel ''supernode'', Subscribe, PullClientAppInputs 7,
            PushClientAppOutputs 7 (''R'', None) ''C+'',
            Log ERROR ''GRPC error occurred: failed to connect to all addresses'',
            ChannelClose :: (string \<times> error option, string) event] ChannelClose = 1 \<and>
   try_body scenario_E (Some 7) =
     Some ([PullClientAppInputs 7, PushClientAppOutputs 7 (''R'', None) ''C+''], Inl rpc_error) \<and>
   isinstance rpc_error RpcError \<and> \<not> isinstance rpc_error KeyboardInterrupt"
proof -
  have cls: "isinstance rpc_error RpcError \<and> \<not> isinstance rpc_error KeyboardInterrupt"
    by (simp add: isinstance_def rpc_error_def)
  from channel_closed_once [OF scenario_E_run] scenario_E_run scenario_E_body cls
  show ?thesis by (intro conjI) simp_all
qed

text \<open>
  C7. A \<open>grpc.RpcError\<close> raised by \<open>GetToken\<close>, by \<open>PullClientAppInputs\<close> or by
  \<open>PushClientAppOutputs\<close> ends the run: one line is logged, the channel is closed and the
  run returns without raising. No call is made after the failing one, so the failure is
  not turned into an error reply (after a failing \<open>GetToken\<close> or pull nothing is pushed;
  after a failing push the only push is the failing one) and nothing is tried again.
\<close>

theorem transport_failure_fatal:
  assumes "isinstance ex RpcError"
  shows
    "((\<forall>j<n. GetToken_rpc (e :: ('m, 'c) env) j = Inr None) \<and> GetToken_rpc e n = Inl ex \<longrightarrow>
        (\<exists>tr. run_clientapp e supernode None = Some (tr, Inr ()) \<and>
           tr = [CreateChannel supernode, Subscribe] @ poll_events (Suc n) @
                [if isinstance ex KeyboardInterrupt then Log INFO ''Closing connection''
                 else Log ERROR (''GRPC error occurred: '' @ str_exn ex),
                 ChannelClose] \<and>
           pulls tr = [] \<and> pushes tr = [])) \<and>
     (token_loop e 0 token = Some (evs, Inr tok) \<and> PullClientAppInputs_rpc e tok = Inl ex \<longrightarrow>
        (\<exists>tr. run_clientapp e supernode token = Some (tr, Inr ()) \<and>
           tr = [CreateChannel supernode, Subscribe] @ evs @
                [PullClientAppInputs tok,
                 if isinstance ex KeyboardInterrupt then Log INFO ''Closing connection''
                 else Log ERROR (''GRPC error occurred: '' @ str_exn ex),
                 ChannelClose] \<and>
           pulls tr = [tok] \<and> pushes tr = [])) \<and>
     (token_loop e 0 token = Some (evs, Inr tok) \<and>
      PullClientAppInputs_rpc e tok = Inr (message, context, rn) \<and>
      fault_boundary e message context rn = (evs3, Inr (reply_message, context')) \<and>
      PushClientAppOutputs_rpc e tok reply_message context' = Inl ex \<longrightarrow>
        (\<exists>tr. run_clientapp e supernode token = Some (tr, Inr ()) \<and>
           tr = [CreateChannel supernode, Subscribe] @ evs @ [PullClientAppInputs tok] @ evs3 @
                [PushClientAppOutputs tok reply_message context',
                 if isinstance ex KeyboardInterrupt then Log INFO ''Closing connection''
                 else Log ERROR (''GRPC error occurred: '' @ str_exn ex),
                 ChannelClose] \<and>
           pulls tr = [tok] \<and> pushes tr = [(tok, reply_message, context')]))"
proof -
  let ?line = "if isinstance ex KeyboardInterrupt then Log INFO ''Closing connection''
               else Log ERROR (''GRPC error occurred: '' @ str_exn ex) :: ('m, 'c) event"
  have handler: "outer_except ex = ([?line], Inr ())"
    using assms by (simp add: outer_except_def)
  have line: "pulls [?line] = []" "pushes [?line] = []"
    by simp_all
  have a: "(\<forall>j<n. GetToken_rpc e j = Inr None) \<and> GetToken_rpc e n = Inl ex \<longrightarrow>
        (\<exists>tr. run_clientapp e supernode None = Some (tr, Inr ()) \<and>
           tr = [CreateChannel supernode, Subscribe] @ poll_events (Suc n) @ [?line, ChannelClose] \<and>
           pulls tr = [] \<and> pushes tr = [])"
  proof
    assume h: "(\<forall>j<n. GetToken_rpc e j = Inr None) \<and> GetToken_rpc e n = Inl ex"
    then have loop: "token_loop e 0 None = Some (poll_events (Suc n), Inl ex)"
      by (intro token_loop_raises) simp_all
    have "run_clientapp e supernode None =
        Some ([CreateChannel supernode, Subscribe] @ poll_events (Suc n) @ [?line, ChannelClose],
              Inr ())"
      by (simp add: run_clientapp_def try_body_def loop handler)
    moreover have "pulls ([CreateChannel supernode, Subscribe] @ poll_events (Suc n) @
        [?line, ChannelClose]) = []"
      by (simp add: pulls_append pulls_poll_events del: poll_events_Suc)
    moreover have "pushes ([CreateChannel supernode, Subscribe] @ poll_events (Suc n) @
        [?line, ChannelClose]) = []"
      by (simp add: pushes_append pushes_poll_events)
    ultimately show "\<exists>tr. run_clientapp e supernode None = Some (tr, Inr ()) \<and>
           tr = [CreateChannel supernode, Subscribe] @ poll_events (Suc n) @ [?line, ChannelClose] \<and>
           pulls tr = [] \<and> pushes tr = []"
      by simp
  qed
  have b: "token_loop e 0 token = Some (evs, Inr tok) \<and> PullClientAppInputs_rpc e tok = Inl ex \<longrightarrow>
        (\<exists>tr. run_clientapp e supernode token = Some (tr, Inr ()) \<and>
           tr = [CreateChannel supernode, Subscribe] @ evs @
                [PullClientAppInputs tok, ?line, ChannelClose] \<and>
           pulls tr = [tok] \<and> pushes tr = [])"
  proof
    assume h: "token_loop e 0 token = Some (evs, Inr tok) \<and> PullClientAppInputs_rpc e tok = Inl ex"
    from token_loop_events [of e 0 token evs "Inr tok"] h obtain k where k: "evs = poll_events k"
      by blast
    have "run_clientapp e supernode token =
        Some ([CreateChannel supernode, Subscribe] @ evs @
              [PullClientAppInputs tok, ?line, ChannelClose], Inr ())"
      using h by (simp add: run_clientapp_def try_body_def pull_message_def handler)
    moreover have "pulls ([CreateChannel supernode, Subscribe] @ evs @
              [PullClientAppInputs tok, ?line, ChannelClose]) = [tok]"
      by (simp add: k pulls_append pulls_poll_events)
    moreover have "pushes ([CreateChannel supernode, Subscribe] @ evs @
              [PullClientAppInputs tok, ?line, ChannelClose]) = []"
      by (simp add: k pushes_append pushes_poll_events)
    ultimately show "\<exists>tr. run_clientapp e supernode token = Some (tr, Inr ()) \<and>
           tr = [CreateChannel supernode, Subscribe] @ evs @
                [PullClientAppInputs tok, ?line, ChannelClose] \<and>
           pulls tr = [tok] \<and> pushes tr = []"
      by simp
  qed
  have c: "token_loop e 0 token = Some (evs, Inr tok) \<and>
      PullClientAppInputs_rpc e tok = Inr (message, context, rn) \<and>
      fault_boundary e message context rn = (evs3, Inr (reply_message, context')) \<and>
      PushClientAppOutputs_rpc e tok reply_message context' = Inl ex \<longrightarrow>
        (\<exists>tr. run_clientapp e supernode token = Some (tr, Inr ()) \<and>
           tr = [CreateChannel supernode, Subscribe] @ evs @ [PullClientAppInputs tok] @ evs3 @
                [PushClientAppOutputs tok reply_message context', ?line, ChannelClose] \<and>
           pulls tr = [tok] \<and> pushes tr = [(tok, reply_message, context')])"
  proof
    assume h: "token_loop e 0 token = Some (evs, Inr tok) \<and>
      PullClientAppInputs_rpc e tok = Inr (message, context, rn) \<and>
      fault_boundary e message context rn = (evs3, Inr (reply_message, context')) \<and>
      PushClientAppOutputs_rpc e tok reply_message context' = Inl ex"
    from token_loop_events [of e 0 token evs "Inr tok"] h obtain k where k: "evs = poll_events k"
      by blast
    from pushes_fault_boundary [of e message "context" rn] h have p3: "pushes evs3 = []" by simp
    from pulls_fault_boundary [of e message "context" rn] h have q3: "pulls evs3 = []" by simp
    have "run_clientapp e supernode token =
        Some ([CreateChannel supernode, Subscribe] @ evs @ [PullClientAppInputs tok] @ evs3 @
              [PushClientAppOutputs tok reply_message context'] @ [?line] @ [ChannelClose], Inr ())"
    proof -
      from h have h1: "token_loop e 0 token = Some (evs, Inr tok)"
        and h2: "PullClientAppInputs_rpc e tok = Inr (message, context, rn)"
        and h3: "fault_boundary e message context rn = (evs3, Inr (reply_message, context'))"
        and h4: "PushClientAppOutputs_rpc e tok reply_message context' = Inl ex"
        by blast+
      show ?thesis by (rule run_clientapp_push_raises [OF h1 h2 h3 h4 handler])
    qed
    moreover have "pulls ([CreateChannel supernode, Subscribe] @ evs @ [PullClientAppInputs tok] @
        evs3 @ [PushClientAppOutputs tok reply_message context', ?line, ChannelClose]) = [tok]"
      by (simp add: k pulls_append pulls_poll_events q3)
    moreover have "pushes ([CreateChannel supernode, Subscribe] @ evs @ [PullClientAppInputs tok] @
        evs3 @ [PushClientAppOutputs tok reply_message context', ?line, ChannelClose]) =
        [(tok, reply_message, context')]"
      by (simp add: k pushes_append pushes_poll_events p3)
    ultimately show "\<exists>tr. run_clientapp e supernode token = Some (tr, Inr ()) \<and>
           tr = [CreateChannel supernode, Subscribe] @ evs @ [PullClientAppInputs tok] @ evs3 @
                [PushClientAppOutputs tok reply_message context', ?line, ChannelClose] \<and>
           pulls tr = [tok] \<and> pushes tr = [(tok, reply_message, context')]"
      by simp
  qed
  from a b c show ?thesis by (intro conjI)
qed

theorem transport_failure_fatal_witness:
  "isinstance rpc_error RpcError \<and>
   GetToken_rpc scenario_token_fails 0 = Inr None \<and>
   GetToken_rpc scenario_token_fails 1 = Inl rpc_error \<and>
   run_clientapp scenario_token_fails ''supernode'' None =
     Some ([CreateChannel ''supernode'', Subscribe] @ poll_events (Suc 1) @
           [Log ERROR ''GRPC error occurred: failed to connect to all addresses'', ChannelClose],
           Inr ()) \<and>
   token_loop scenario_pull_fails 0 (Some 7) = Some ([], Inr 7) \<and>
   PullClientAppInputs_rpc scenario_pull_fails 7 = Inl rpc_error \<and>
   run_clientapp scenario_pull_fails ''supernode'' (Some 7) =
     Some ([CreateChannel ''supernode'', Subscribe, PullClientAppInputs 7,
            Log ERROR ''GRPC error occurred: failed to connect to all addresses'', ChannelClose],
           Inr ()) \<and>
   PushClientAppOutputs_rpc scenario_E 7 (''R'', None) ''C+'' = Inl rpc_error \<and>
   run_clientapp scenario_E ''supernode'' (Some 7) =
     Some ([CreateChannel ''supernode'', Subscribe, PullClientAppInputs 7,
            PushClientAppOutputs 7 (''R'', None) ''C+'',
            Log ERROR ''GRPC error occurred: failed to connect to all addresses'', ChannelClose],
           Inr ())"
proof -
  have cls: "isinstance rpc_error RpcError"
    by (simp add: isinstance_def rpc_error_def)
  have nki: "\<not> isinstance rpc_error KeyboardInterrupt"
    by (simp add: isinstance_def rpc_error_def)
  have msg: "str_exn rpc_error = ''failed to connect to all addresses''"
    by (simp add: str_exn_def rpc_error_def)
  have a: "(\<forall>j<1. GetToken_rpc scenario_token_fails j = Inr None) \<and>
      GetToken_rpc scenario_token_fails 1 = Inl rpc_error"
    by (simp add: scenario_token_fails_def supernode_env_def)
  have loop: "token_loop scenario_pull_fails 0 (Some 7) = Some ([], Inr 7)"
    by (rule token_loop_Some)
  have b: "PullClientAppInputs_rpc scenario_pull_fails 7 = Inl rpc_error"
    by (simp add: scenario_pull_fails_def)
  have loopE: "token_loop scenario_E 0 (Some 7) = Some ([], Inr 7)"
    by (rule token_loop_Some)
  have pull: "PullClientAppInputs_rpc scenario_E 7 =
      Inr ((''M'', None), ''C'', \<lparr>fab_id = ''flwr/app'', fab_version = ''1.0''\<rparr>)"
    by (simp add: scenario_E_def supernode_env_def)
  have "inner_try scenario_E (''M'', None) ''C'' \<lparr>fab_id = ''flwr/app'', fab_version = ''1.0''\<rparr> =
      (Inr (''R'', None), (''M'', None), ''C+'')"
    by (simp add: inner_try_def scenario_E_def supernode_env_def app_returns_def)
  then have fb: "fault_boundary scenario_E (''M'', None) ''C''
      \<lparr>fab_id = ''flwr/app'', fab_version = ''1.0''\<rparr> = ([], Inr ((''R'', None), ''C+''))"
    by (rule fault_boundary_returns)
  have c: "PushClientAppOutputs_rpc scenario_E 7 (''R'', None) ''C+'' = Inl rpc_error"
    by (simp add: scenario_E_def supernode_env_def)
  note inst1 = transport_failure_fatal [OF cls, where e = scenario_token_fails and n = 1
      and supernode = "''supernode''", THEN conjunct1, rule_format, OF a]
  note inst2 = transport_failure_fatal [OF cls, where e = scenario_pull_fails
      and supernode = "''supernode''", THEN conjunct2, THEN conjunct1, rule_format,
      OF conjI [OF loop b]]
  note inst3 = transport_failure_fatal [OF cls, where e = scenario_E
      and supernode = "''supernode''", THEN conjunct2, THEN conjunct2, rule_format,
      OF conjI [OF loopE conjI [OF pull conjI [OF fb c]]]]
  from inst1 have r1: "run_clientapp scenario_token_fails ''supernode'' None =
     Some ([CreateChannel ''supernode'', Subscribe] @ poll_events (Suc 1) @
           [Log ERROR ''GRPC error occurred: failed to connect to all addresses'', ChannelClose],
           Inr ())"
    by (simp add: nki msg)
  from inst2 have r2: "run_clientapp scenario_pull_fails ''supernode'' (Some 7) =
     Some ([CreateChannel ''supernode'', Subscribe, PullClientAppInputs 7,
            Log ERROR ''GRPC error occurred: failed to connect to all addresses'', ChannelClose],
           Inr ())"
    by (simp add: nki msg)
  from inst3 have r3: "run_clientapp scenario_E ''supernode'' (Some 7) =
     Some ([CreateChannel ''supernode'', Subscribe, PullClientAppInputs 7,
            PushClientAppOutputs 7 (''R'', None) ''C+'',
            Log ERROR ''GRPC error occurred: failed to connect to all addresses'', ChannelClose],
           Inr ())"
    by (simp add: nki msg)
  from cls a loop b c r1 r2 r3 show ?thesis by (intro conjI) simp_all
qed




text \<open>
  C2. When the \<open>ClientApp\<close> is loaded and its call raises an exception that is not a
  \<open>LoadClientAppError\<close>, the reply pushed is the error reply with code
  \<open>CLIENT_APP_RAISED_EXCEPTION\<close> and reason \<open>str(type(ex)) + ":<'" + str(ex) + "'>"\<close>, built
  from the message and pushed with the context as the call left them; for
  \<open>ZeroDivisionError("division by zero")\<close> the reason is
  \<open><class 'ZeroDivisionError'>:<'division by zero'>\<close>. There is such a reply exactly when
  the exception is an instance of \<open>Exception\<close> and \<open>str(ex)\<close> returns its text; otherwise
  nothing is pushed.
\<close>

theorem invocation_failure_reply:
  assumes "token_loop e 0 token = Some (evs, Inr tok)"
    and "PullClientAppInputs_rpc e tok = Inr (message, context, rn)"
    and "load_client_app_fn e (fab_id rn) (fab_version rn) = Inr client_app"
    and "client_app message context = (Inl ex, message', context')"
    and "\<not> isinstance ex LoadClientAppError"
  shows "\<exists>tr out. run_clientapp e supernode token = Some (tr, out) \<and>
           pushes tr =
             (if isinstance ex Exception \<and> exn_str_raises ex = None
              then [(tok,
                     create_error_reply e message'
                       \<lparr>code = CLIENT_APP_RAISED_EXCEPTION,
                        reason = str_type ex @ '':<'' @ squote @ str_exn ex @ squote @ ''>''\<rparr>,
                     context')]
              else [])"
proof -
  have inner: "inner_try e message context rn = (Inl ex, message', context')"
    by (simp add: inner_try_loaded [OF assms(3)] assms(4))
  show ?thesis
  proof (cases "isinstance ex Exception \<and> exn_str_raises ex = None")
    case True
    with run_clientapp_inner_raises [OF assms(1,2) inner, of supernode] assms(5)
    show ?thesis by simp
  next
    case False
    with run_clientapp_inner_raises [OF assms(1,2) inner, of supernode]
    show ?thesis by auto
  qed
qed

theorem invocation_failure_reply_witness:
  "token_loop scenario_D 0 (Some 7) = Some ([], Inr 7) \<and>
   PullClientAppInputs_rpc scenario_D 7 = Inr ((''M'', None), ''C'', the_run) \<and>
   load_client_app_fn scenario_D (fab_id the_run) (fab_version the_run) =
     Inr (app_raises zero_division) \<and>
   app_raises zero_division (''M'', None) ''C'' = (Inl zero_division, (''M'', None), ''C+'') \<and>
   \<not> isinstance zero_division LoadClientAppError \<and>
   isinstance zero_division Exception \<and> exn_str_raises zero_division = None \<and>
   (\<exists>tr out. run_clientapp scenario_D ''supernode'' (Some 7) = Some (tr, out) \<and>
      pushes tr =
        [(7,
          (''M'', Some \<lparr>code = CLIENT_APP_RAISED_EXCEPTION,
                        reason = ''<class 'ZeroDivisionError'>:<'division by zero'>''\<rparr>),
          ''C+'')])"
proof -
  have 1: "token_loop scenario_D 0 (Some 7) = Some ([], Inr 7)"
    by (rule token_loop_Some)
  have 2: "PullClientAppInputs_rpc scenario_D 7 = Inr ((''M'', None), ''C'', the_run)"
    by (simp add: scenario_D_app scenario_app_raises_simps)
  have 3: "load_client_app_fn scenario_D (fab_id the_run) (fab_version the_run) =
      Inr (app_raises zero_division)"
    by (simp add: scenario_D_app scenario_app_raises_simps)
  have 4: "app_raises zero_division (''M'', None) ''C'' =
      (Inl zero_division, (''M'', None), ''C+'')"
    by (simp add: app_raises_def)
  have 8: "create_error_reply scenario_D (''M'', None) err = (''M'', Some err)" for err
    by (simp add: scenario_D_app scenario_app_raises_simps)
  from invocation_failure_reply [OF 1 2 3 4 zero_division_fields(4), of "''supernode''"]
  have "\<exists>tr out. run_clientapp scenario_D ''supernode'' (Some 7) = Some (tr, out) \<and>
      pushes tr =
        [(7,
          (''M'', Some \<lparr>code = CLIENT_APP_RAISED_EXCEPTION,
                        reason = ''<class 'ZeroDivisionError'>:<'division by zero'>''\<rparr>),
          ''C+'')]"
    by (simp add: zero_division_fields 8 str_type_def str_exn_def squote_def)
  with 1 2 3 4 zero_division_fields(3,4,5) show ?thesis by (intro conjI)
qed

text \<open>
  C3, as the code has it. When loading the \<open>ClientApp\<close> raises an instance of \<open>Exception\<close>,
  the reply that is pushed (there is one exactly when \<open>str(ex)\<close> returns) goes with the
  context that was pulled, unchanged. When the exception is a \<open>LoadClientAppError\<close>, that
  reply is the error reply with code \<open>LOAD_CLIENT_APP_EXCEPTION\<close> and the fixed reason
  \<open>An exception was raised when attempting to load `ClientApp`\<close>, which contains nothing of
  the exception.
\<close>

theorem load_failure_reply:
  assumes "token_loop e 0 token = Some (evs, Inr tok)"
    and "PullClientAppInputs_rpc e tok = Inr (message, context, rn)"
    and "load_client_app_fn e (fab_id rn) (fab_version rn) = Inl ex"
    and "isinstance ex Exception"
  shows "\<exists>tr out reply_message.
           run_clientapp e supernode token = Some (tr, out) \<and>
           pushes tr =
             (if exn_str_raises ex = None then [(tok, reply_message, context)] else []) \<and>
           (isinstance ex LoadClientAppError \<longrightarrow>
              reply_message =
                create_error_reply e message
                  \<lparr>code = LOAD_CLIENT_APP_EXCEPTION,
                   reason = ''An exception was raised when attempting to load `ClientApp`''\<rparr>)"
proof -
  note inner = inner_try_loader_raises [OF assms(3), of message "context"]
  from run_clientapp_inner_raises [OF assms(1,2) inner, of supernode] assms(4)
  obtain tr out where run: "run_clientapp e supernode token = Some (tr, out)"
    and p: "pushes tr =
      (if exn_str_raises ex = None
       then [(tok,
              create_error_reply e message
                (if isinstance ex LoadClientAppError
                 then \<lparr>code = LOAD_CLIENT_APP_EXCEPTION, reason = load_reason\<rparr>
                 else \<lparr>code = CLIENT_APP_RAISED_EXCEPTION,
                        reason = str_type ex @ '':<'' @ squote @ str_exn ex @ squote @ ''>''\<rparr>),
              context)]
       else [])"
    by auto
  let ?reply = "create_error_reply e message
                (if isinstance ex LoadClientAppError
                 then \<lparr>code = LOAD_CLIENT_APP_EXCEPTION, reason = load_reason\<rparr>
                 else \<lparr>code = CLIENT_APP_RAISED_EXCEPTION,
                        reason = str_type ex @ '':<'' @ squote @ str_exn ex @ squote @ ''>''\<rparr>)"
  from run p show ?thesis
    by (intro exI [of _ tr] exI [of _ out] exI [of _ ?reply]) (simp add: load_reason_text)
qed

theorem load_failure_reply_witness:
  "token_loop (scenario_loader_raises load_error) 0 (Some 7) = Some ([], Inr 7) \<and>
   PullClientAppInputs_rpc (scenario_loader_raises load_error) 7 =
     Inr ((''M'', None), ''C'', the_run) \<and>
   load_client_app_fn (scenario_loader_raises load_error) (fab_id the_run) (fab_version the_run) =
     Inl load_error \<and>
   isinstance load_error Exception \<and> isinstance load_error LoadClientAppError \<and>
   exn_str_raises load_error = None \<and>
   (\<exists>tr out.
      run_clientapp (scenario_loader_raises load_error) ''supernode'' (Some 7) = Some (tr, out) \<and>
      pushes tr =
        [(7,
          (''M'', Some \<lparr>code = LOAD_CLIENT_APP_EXCEPTION,
                        reason = ''An exception was raised when attempting to load `ClientApp`''\<rparr>),
          ''C'')])"
proof -
  note 1 = scenario_loop [of "scenario_loader_raises load_error"]
  note 2 = scenario_loader_raises_simps(1) [of load_error 7]
  note 3 = scenario_loader_raises_simps(2) [of load_error]
  from load_failure_reply [OF 1 2 3 load_error_fields(1), of "''supernode''"]
  have "\<exists>tr out.
      run_clientapp (scenario_loader_raises load_error) ''supernode'' (Some 7) = Some (tr, out) \<and>
      pushes tr =
        [(7,
          (''M'', Some \<lparr>code = LOAD_CLIENT_APP_EXCEPTION,
                        reason = ''An exception was raised when attempting to load `ClientApp`''\<rparr>),
          ''C'')]"
    by (simp add: load_error_fields scenario_loader_raises_simps)
  with 1 2 3 load_error_fields show ?thesis by (intro conjI)
qed

text \<open>
  C3 as stated fails: when loading raises \<open>FileNotFoundError("app.toml missing")\<close>, the
  reply has code \<open>CLIENT_APP_RAISED_EXCEPTION\<close> and a reason that contains the text of the
  exception; and for a \<open>LoadClientAppError\<close> the fixed reason names \<open>`ClientApp`\<close>, not
  \<open>the application\<close>.
\<close>

theorem load_failure_reply_counterexample:
  "load_client_app_fn (scenario_loader_raises file_not_found) (fab_id the_run)
     (fab_version the_run) = Inl file_not_found \<and>
   run_clientapp (scenario_loader_raises file_not_found) ''supernode'' (Some 7) =
     Some ([CreateChannel ''supernode'', Subscribe, PullClientAppInputs 7,
            Log ERROR ''ClientApp raised an exception'',
            PushClientAppOutputs 7
              (''M'', Some \<lparr>code = CLIENT_APP_RAISED_EXCEPTION,
                            reason = ''<class 'FileNotFoundError'>:<'app.toml missing'>''\<rparr>)
              ''C'',
            ChannelClose], Inr ()) \<and>
   run_clientapp (scenario_loader_raises load_error) ''supernode'' (Some 7) =
     Some ([CreateChannel ''supernode'', Subscribe, PullClientAppInputs 7,
            Log ERROR ''ClientApp raised an exception'',
            PushClientAppOutputs 7
              (''M'', Some \<lparr>code = LOAD_CLIENT_APP_EXCEPTION,
                            reason = ''An exception was raised when attempting to load `ClientApp`''\<rparr>)
              ''C'',
            ChannelClose], Inr ()) \<and>
   ''An exception was raised when attempting to load `ClientApp`'' \<noteq>
   ''An exception was raised when attempting to load the application''"
proof -
  have 1: "load_client_app_fn (scenario_loader_raises file_not_found) (fab_id the_run)
     (fab_version the_run) = Inl file_not_found"
    by (simp add: scenario_loader_raises_simps)
  have 2: "run_clientapp (scenario_loader_raises file_not_found) ''supernode'' (Some 7) =
     Some ([CreateChannel ''supernode'', Subscribe, PullClientAppInputs 7,
            Log ERROR ''ClientApp raised an exception'',
            PushClientAppOutputs 7
              (''M'', Some \<lparr>code = CLIENT_APP_RAISED_EXCEPTION,
                            reason = ''<class 'FileNotFoundError'>:<'app.toml missing'>''\<rparr>)
              ''C'',
            ChannelClose], Inr ())"
    using run_clientapp_scenario_caught [of "scenario_loader_raises file_not_found"
        file_not_found "''C''", OF _ _ conjI [OF file_not_found_fields(3,5)] _ refl]
    by (simp add: scenario_loader_raises_simps file_not_found_fields str_type_def str_exn_def
        squote_def)
  have 3: "run_clientapp (scenario_loader_raises load_error) ''supernode'' (Some 7) =
     Some ([CreateChannel ''supernode'', Subscribe, PullClientAppInputs 7,
            Log ERROR ''ClientApp raised an exception'',
            PushClientAppOutputs 7
              (''M'', Some \<lparr>code = LOAD_CLIENT_APP_EXCEPTION,
                            reason = ''An exception was raised when attempting to load `ClientApp`''\<rparr>)
              ''C'',
            ChannelClose], Inr ())"
    using run_clientapp_scenario_caught [of "scenario_loader_raises load_error"
        load_error "''C''", OF _ _ conjI [OF load_error_fields(1,3)] _ refl]
    by (simp add: scenario_loader_raises_simps load_error_fields load_reason_text)
  have 4: "''An exception was raised when attempting to load `ClientApp`'' \<noteq>
      ''An exception was raised when attempting to load the application''"
    by simp
  from 1 2 3 4 show ?thesis by (intro conjI)
qed

text \<open>
  C9. The fault boundary looks at the class of the exception, not at the step that raised
  it. Whether an instance of \<open>Exception\<close> is raised by loading the \<open>ClientApp\<close> or by
  calling it, the reply pushed (there is one exactly when \<open>str(ex)\<close> returns) is the error
  reply with code \<open>LOAD_CLIENT_APP_EXCEPTION\<close> and the fixed reason when the exception is a
  \<open>LoadClientAppError\<close>, and with code \<open>CLIENT_APP_RAISED_EXCEPTION\<close> and the reason made of
  its class and text otherwise. Both steps are evaluated below against the grain: a
  \<open>FileNotFoundError\<close> raised by loading, a \<open>LoadClientAppError\<close> raised by the call.
\<close>

theorem classified_by_type:
  assumes "token_loop e 0 token = Some (evs, Inr tok)"
    and "PullClientAppInputs_rpc e tok = Inr (message, context, rn)"
    and "isinstance ex Exception"
  shows
    "(load_client_app_fn e (fab_id rn) (fab_version rn) = Inl ex \<longrightarrow>
        (\<exists>tr out.
           run_clientapp e supernode token = Some (tr, out) \<and>
           pushes tr =
             (if exn_str_raises ex = None
              then [(tok,
                     create_error_reply e message
                       (if isinstance ex LoadClientAppError
                        then \<lparr>code = LOAD_CLIENT_APP_EXCEPTION,
                               reason =
                                 ''An exception was raised when attempting to load `ClientApp`''\<rparr>
                        else \<lparr>code = CLIENT_APP_RAISED_EXCEPTION,
                               reason =
                                 str_type ex @ '':<'' @ squote @ str_exn ex @ squote @ ''>''\<rparr>),
                     context)]
              else []))) \<and>
     (load_client_app_fn e (fab_id rn) (fab_version rn) = Inr client_app \<and>
      client_app message context = (Inl ex, message', context') \<longrightarrow>
        (\<exists>tr out.
           run_clientapp e supernode token = Some (tr, out) \<and>
           pushes tr =
             (if exn_str_raises ex = None
              then [(tok,
                     create_error_reply e message'
                       (if isinstance ex LoadClientAppError
                        then \<lparr>code = LOAD_CLIENT_APP_EXCEPTION,
                               reason =
                                 ''An exception was raised when attempting to load `ClientApp`''\<rparr>
                        else \<lparr>code = CLIENT_APP_RAISED_EXCEPTION,
                               reason =
                                 str_type ex @ '':<'' @ squote @ str_exn ex @ squote @ ''>''\<rparr>),
                     context')]
              else [])))"
proof (intro conjI impI)
  assume "load_client_app_fn e (fab_id rn) (fab_version rn) = Inl ex"
  note inner = inner_try_loader_raises [OF this, of message "context"]
  from run_clientapp_inner_raises [OF assms(1,2) inner, of supernode, unfolded load_reason_text]
    assms(3)
  show "\<exists>tr out.
           run_clientapp e supernode token = Some (tr, out) \<and>
           pushes tr =
             (if exn_str_raises ex = None
              then [(tok,
                     create_error_reply e message
                       (if isinstance ex LoadClientAppError
                        then \<lparr>code = LOAD_CLIENT_APP_EXCEPTION,
                               reason =
                                 ''An exception was raised when attempting to load `ClientApp`''\<rparr>
                        else \<lparr>code = CLIENT_APP_RAISED_EXCEPTION,
                               reason =
                                 str_type ex @ '':<'' @ squote @ str_exn ex @ squote @ ''>''\<rparr>),
                     context)]
              else [])"
    by simp
next
  assume h: "load_client_app_fn e (fab_id rn) (fab_version rn) = Inr client_app \<and>
      client_app message context = (Inl ex, message', context')"
  then have inner: "inner_try e message context rn = (Inl ex, message', context')"
    by (simp add: inner_try_def)
  from run_clientapp_inner_raises [OF assms(1,2) inner, of supernode, unfolded load_reason_text]
    assms(3)
  show "\<exists>tr out.
           run_clientapp e supernode token = Some (tr, out) \<and>
           pushes tr =
             (if exn_str_raises ex = None
              then [(tok,
                     create_error_reply e message'
                       (if isinstance ex LoadClientAppError
                        then \<lparr>code = LOAD_CLIENT_APP_EXCEPTION,
                               reason =
                                 ''An exception was raised when attempting to load `ClientApp`''\<rparr>
                        else \<lparr>code = CLIENT_APP_RAISED_EXCEPTION,
                               reason =
                                 str_type ex @ '':<'' @ squote @ str_exn ex @ squote @ ''>''\<rparr>),
                     context')]
              else [])"
    by simp
qed

theorem classified_by_type_witness:
  "isinstance file_not_found Exception \<and> \<not> isinstance file_not_found LoadClientAppError \<and>
   exn_str_raises file_not_found = None \<and>
   PullClientAppInputs_rpc (scenario_loader_raises file_not_found) 7 =
     Inr ((''M'', None), ''C'', the_run) \<and>
   load_client_app_fn (scenario_loader_raises file_not_found) (fab_id the_run)
     (fab_version the_run) = Inl file_not_found \<and>
   (\<exists>tr out.
      run_clientapp (scenario_loader_raises file_not_found) ''supernode'' (Some 7) =
        Some (tr, out) \<and>
      pushes tr =
        [(7,
          (''M'', Some \<lparr>code = CLIENT_APP_RAISED_EXCEPTION,
                        reason = ''<class 'FileNotFoundError'>:<'app.toml missing'>''\<rparr>),
          ''C'')]) \<and>
   isinstance load_error Exception \<and> isinstance load_error LoadClientAppError \<and>
   exn_str_raises load_error = None \<and> exn_text load_error = ''Failed to load ClientApp'' \<and>
   PullClientAppInputs_rpc (scenario_app_raises load_error) 7 =
     Inr ((''M'', None), ''C'', the_run) \<and>
   load_client_app_fn (scenario_app_raises load_error) (fab_id the_run) (fab_version the_run) =
     Inr (app_raises load_error) \<and>
   app_raises load_error (''M'', None) ''C'' = (Inl load_error, (''M'', None), ''C+'') \<and>
   (\<exists>tr out.
      run_clientapp (scenario_app_raises load_error) ''supernode'' (Some 7) = Some (tr, out) \<and>
      pushes tr =
        [(7,
          (''M'', Some \<lparr>code = LOAD_CLIENT_APP_EXCEPTION,
                        reason = ''An exception was raised when attempting to load `ClientApp`''\<rparr>),
          ''C+'')])"
proof -
  note l1 = scenario_loop [of "scenario_loader_raises file_not_found"]
  note l2 = scenario_loader_raises_simps(1) [of file_not_found 7]
  note l3 = scenario_loader_raises_simps(2) [of file_not_found]
  note a1 = scenario_loop [of "scenario_app_raises load_error"]
  note a2 = scenario_app_raises_simps(1) [of load_error 7]
  note a3 = scenario_app_raises_simps(2) [of load_error]
  have a4: "app_raises load_error (''M'', None) ''C'' = (Inl load_error, (''M'', None), ''C+'')"
    by (simp add: app_raises_def)
  have txt5: "exn_text load_error = ''Failed to load ClientApp''"
    by (simp add: load_error_def)
  from classified_by_type [OF l1 l2 file_not_found_fields(3), where supernode = "''supernode''",
      THEN conjunct1, rule_format, OF l3]
  have l: "\<exists>tr out.
      run_clientapp (scenario_loader_raises file_not_found) ''supernode'' (Some 7) =
        Some (tr, out) \<and>
      pushes tr =
        [(7,
          (''M'', Some \<lparr>code = CLIENT_APP_RAISED_EXCEPTION,
                        reason = ''<class 'FileNotFoundError'>:<'app.toml missing'>''\<rparr>),
          ''C'')]"
    by (simp add: file_not_found_fields scenario_loader_raises_simps str_type_def str_exn_def
        squote_def)
  from classified_by_type [OF a1 a2 load_error_fields(1), where supernode = "''supernode''",
      THEN conjunct2, rule_format, OF conjI [OF a3 a4]]
  have a: "\<exists>tr out.
      run_clientapp (scenario_app_raises load_error) ''supernode'' (Some 7) = Some (tr, out) \<and>
      pushes tr =
        [(7,
          (''M'', Some \<lparr>code = LOAD_CLIENT_APP_EXCEPTION,
                        reason = ''An exception was raised when attempting to load `ClientApp`''\<rparr>),
          ''C+'')]"
    by (simp add: load_error_fields scenario_app_raises_simps)
  from l a l2 l3 a2 a3 a4 txt5 file_not_found_fields(3,4,5) load_error_fields
  show ?thesis by (intro conjI)
qed

text \<open>
  C10. The \<open>except Exception\<close> clause is meant to turn every instance of \<open>Exception\<close> raised
  inside the fault boundary into an error reply. It does not when \<open>str(ex)\<close> raises: an
  instance of \<open>Exception\<close> whose \<open>__str__\<close> raises a \<open>TypeError\<close>, raised by loading the
  \<open>ClientApp\<close> or by calling it, makes the clause raise the \<open>TypeError\<close> before anything is
  logged or built; nothing is pushed, the channel is closed, and the run ends by raising
  the \<open>TypeError\<close>.
\<close>

theorem broken_str_not_converted:
  "isinstance broken_str Exception \<and>
   load_client_app_fn (scenario_loader_raises broken_str) (fab_id the_run) (fab_version the_run) =
     Inl broken_str \<and>
   run_clientapp (scenario_loader_raises broken_str) ''supernode'' (Some 7) =
     Some ([CreateChannel ''supernode'', Subscribe, PullClientAppInputs 7, ChannelClose],
           Inl str_type_error) \<and>
   load_client_app_fn (scenario_app_raises broken_str) (fab_id the_run) (fab_version the_run) =
     Inr (app_raises broken_str) \<and>
   app_raises broken_str (''M'', None) ''C'' = (Inl broken_str, (''M'', None), ''C+'') \<and>
   run_clientapp (scenario_app_raises broken_str) ''supernode'' (Some 7) =
     Some ([CreateChannel ''supernode'', Subscribe, PullClientAppInputs 7, ChannelClose],
           Inl str_type_error)"
proof -
  have handler: "outer_except str_type_error =
      ([] :: (string \<times> error option, string) event list, Inl str_type_error)"
    by (simp add: outer_except_def str_type_error_fields)
  have f1: "fault_boundary (scenario_loader_raises broken_str) (''M'', None) ''C'' the_run =
      ([], Inl str_type_error)"
    by (rule fault_boundary_str_raises [OF scenario_loader_raises_simps(5) broken_str_fields(1,3)])
  from run_clientapp_escaped [OF scenario_loop scenario_loader_raises_simps(1) f1 handler,
      of "''supernode''"]
  have r1: "run_clientapp (scenario_loader_raises broken_str) ''supernode'' (Some 7) =
     Some ([CreateChannel ''supernode'', Subscribe, PullClientAppInputs 7, ChannelClose],
           Inl str_type_error)"
    by simp
  have f2: "fault_boundary (scenario_app_raises broken_str) (''M'', None) ''C'' the_run =
      ([], Inl str_type_error)"
    by (rule fault_boundary_str_raises [OF scenario_app_raises_simps(5) broken_str_fields(1,3)])
  from run_clientapp_escaped [OF scenario_loop scenario_app_raises_simps(1) f2 handler,
      of "''supernode''"]
  have r2: "run_clientapp (scenario_app_raises broken_str) ''supernode'' (Some 7) =
     Some ([CreateChannel ''supernode'', Subscribe, PullClientAppInputs 7, ChannelClose],
           Inl str_type_error)"
    by simp
  have a4: "app_raises broken_str (''M'', None) ''C'' = (Inl broken_str, (''M'', None), ''C+'')"
    by (simp add: app_raises_def)
  from broken_str_fields(1) scenario_loader_raises_simps(2) [of broken_str] r1
    scenario_app_raises_simps(2) [of broken_str] a4 r2
  show ?thesis by (intro conjI)
qed

end
